theory Spec2Isabelle
  imports Main
begin

section \<open>The abstract query generator of sequelize\<close>

text \<open>
  A shallow embedding of \<^verbatim>\<open>lib/dialects/abstract/query-generator/index.js\<close>:
  identifier quoting, table references, value escaping, JSON path extraction and the
  recursive \<^verbatim>\<open>quote\<close> that normalises the targets of ORDER BY and GROUP BY.
  Thrown errors are values of \<open>error + 'a\<close>; the in-place rewriting of a path is a pass
  that returns the rewritten list.
\<close>

subsection \<open>JavaScript strings\<close>

text \<open>
  Strings are lists of characters. \<^verbatim>\<open>s.split(d)\<close> for a separator of one character
  returns one piece more than there are separators, so the empty string gives one empty piece.
\<close>

fun str_split :: "char \<Rightarrow> string \<Rightarrow> string list" where
  "str_split d [] = [Nil]"
| "str_split d (c # cs) =
     (if c = d then [] # str_split d cs
      else (case str_split d cs of
              [] \<Rightarrow> [c # Nil]
            | w # ws \<Rightarrow> (c # w) # ws))"

text \<open>\<^verbatim>\<open>xs.join(sep)\<close>: the separator stands between two elements only.\<close>

fun str_join :: "string \<Rightarrow> string list \<Rightarrow> string" where
  "str_join sep [] = []"
| "str_join sep [x] = x"
| "str_join sep (x # y # ys) = x @ sep @ str_join sep (y # ys)"

text \<open>
  \<^verbatim>\<open>s.toUpperCase()\<close>. Characters are read as code points below 256 and only the
  letters a to z are mapped: the result is compared with ASCII words only, and no other
  character of that range is mapped to an ASCII letter.
\<close>

definition toUpperCase_char :: "char \<Rightarrow> char" where
  "toUpperCase_char c =
     (if 97 \<le> (of_char c :: nat) \<and> (of_char c :: nat) \<le> 122
      then char_of ((of_char c :: nat) - 32) else c)"

definition toUpperCase :: "string \<Rightarrow> string" where
  "toUpperCase s = map toUpperCase_char s"

text \<open>\<^verbatim>\<open>\d\<close> of a JavaScript regular expression: the ten ASCII digits.\<close>

definition isDigit :: "char \<Rightarrow> bool" where
  "isDigit c = (48 \<le> (of_char c :: nat) \<and> (of_char c :: nat) \<le> 57)"

text \<open>The truth value of an optional string property: absent and empty are both falsy.\<close>

fun truthy_str :: "string option \<Rightarrow> bool" where
  "truthy_str None = False"
| "truthy_str (Some s) = (s \<noteq> [])"

subsection \<open>Values and errors\<close>

text \<open>
  The wrappers of \<^verbatim>\<open>Utils.SequelizeMethod\<close>. Only the literal wrapper is needed
  here; \<^verbatim>\<open>sequelize.literal(sql)\<close> builds it around raw SQL text.
\<close>

datatype sequelize_method = Literal string

text \<open>
  Modelled from the spec: \<^verbatim>\<open>handleSequelizeMethod\<close> is mixed into the generator
  from another file; the spec has the literal wrapper rendered verbatim, unescaped.
\<close>

fun handleSequelizeMethod :: "sequelize_method \<Rightarrow> string" where
  "handleSequelizeMethod (Literal raw) = raw"

text \<open>The values handed to \<^verbatim>\<open>escape\<close>. Numbers are integers here.\<close>

datatype jsval =
    JNull
  | JUndefined
  | JBool bool
  | JNum int
  | JStr string
  | JArr "jsval list"
  | JMethod sequelize_method

fun truthy :: "jsval \<Rightarrow> bool" where
  "truthy JNull = False"
| "truthy JUndefined = False"
| "truthy (JBool b) = b"
| "truthy (JNum n) = (n \<noteq> 0)"
| "truthy (JStr s) = (s \<noteq> [])"
| "truthy (JArr xs) = True"
| "truthy (JMethod m) = True"

text \<open>
  The errors thrown. All but the first two are \<^verbatim>\<open>new Error(message)\<close> in the source
  and are told apart by the message; \<open>PropertyOfUndefined\<close> is the TypeError of reading
  a property of \<^verbatim>\<open>undefined\<close> or \<^verbatim>\<open>null\<close>, \<open>ValidationFailed\<close> is what a
  field type's \<^verbatim>\<open>validate\<close> throws, and \<open>NotAnIdentifier\<close> stands for the quoting
  helper being handed an object in place of a string.
\<close>

datatype error =
    PropertyOfUndefined
  | ValidationFailed
  | NotAnIdentifier
  | AssociationNotFound string
  | RawSyntaxRemoved
  | UnknownStructure
  | UnsupportedDialect string

subsection \<open>The generator and the quoting helper\<close>

text \<open>
  What a generator reads from \<^verbatim>\<open>this\<close>: the dialect name \<^verbatim>\<open>this.dialect\<close>,
  \<^verbatim>\<open>this._dialect.supports.schemas\<close>, \<^verbatim>\<open>this.options.quoteIdentifiers\<close>,
  \<^verbatim>\<open>this.options.timezone\<close> and \<^verbatim>\<open>this.typeValidation\<close>. The quote character
  of the dialect is kept by the quoting helper, which is not part of this file, and the
  low-level \<^verbatim>\<open>SqlString.escape(value, timezone, dialect)\<close> is another module: both
  are parameters of the generator.
\<close>

record generator =
  dialect :: string
  identifierQuoteChar :: char
  supportsSchemas :: bool
  quoteIdentifiersOption :: bool
  timezone :: string
  typeValidation :: bool
  SqlString_escape :: "jsval \<Rightarrow> string \<Rightarrow> string \<Rightarrow> string"

text \<open>
  Modelled from the spec: \<^verbatim>\<open>helpers/quote.js\<close> is missing.
  \<^verbatim>\<open>isIdentifierQuoted\<close> detects whether the text is already wrapped in the
  dialect's quote character.
\<close>

definition QuoteHelper_isIdentifierQuoted :: "char \<Rightarrow> string \<Rightarrow> bool" where
  "QuoteHelper_isIdentifierQuoted q identifier =
     (2 \<le> length identifier \<and> hd identifier = q \<and> last identifier = q)"

text \<open>
  Modelled from the spec: \<^verbatim>\<open>helpers/quote.js\<close> is missing.
  \<^verbatim>\<open>quoteIdentifier\<close> wraps the name in the dialect's quote character unless
  quoting is globally disabled; \<^verbatim>\<open>force\<close> overrides the global disable flag; and
  quoting again an identifier that is already quoted, with \<^verbatim>\<open>force = false\<close>,
  changes nothing.
\<close>

definition QuoteHelper_quoteIdentifier :: "char \<Rightarrow> string \<Rightarrow> bool \<Rightarrow> bool \<Rightarrow> string" where
  "QuoteHelper_quoteIdentifier q identifier force enabled =
     (if force then q # identifier @ [q]
      else if \<not> enabled then identifier
      else if QuoteHelper_isIdentifierQuoted q identifier then identifier
      else q # identifier @ [q])"

definition quoteIdentifier_force :: "generator \<Rightarrow> string \<Rightarrow> bool \<Rightarrow> string" where
  "quoteIdentifier_force qg identifier force =
     QuoteHelper_quoteIdentifier (identifierQuoteChar qg) identifier force
       (quoteIdentifiersOption qg)"

text \<open>Every call in this file leaves \<^verbatim>\<open>force\<close> out.\<close>

definition quoteIdentifier :: "generator \<Rightarrow> string \<Rightarrow> string" where
  "quoteIdentifier qg identifier = quoteIdentifier_force qg identifier False"

definition isIdentifierQuoted :: "generator \<Rightarrow> string \<Rightarrow> bool" where
  "isIdentifierQuoted qg identifier =
     QuoteHelper_isIdentifierQuoted (identifierQuoteChar qg) identifier"

text \<open>
  \<^verbatim>\<open>quoteIdentifiers\<close>: with a dot in the string, all pieces but the last are joined
  again into the head.
\<close>

definition quoteIdentifiers :: "generator \<Rightarrow> string \<Rightarrow> string" where
  "quoteIdentifiers qg identifiers =
     (if CHR ''.'' \<in> set identifiers then
        (let parts = str_split CHR ''.'' identifiers;
             head = str_join ''.'' (take (length parts - 1) parts);
             tail = parts ! (length parts - 1)
         in quoteIdentifier qg head @ ''.'' @ quoteIdentifier qg tail)
      else quoteIdentifier qg identifiers)"

subsection \<open>Table references\<close>

text \<open>
  The first argument of \<^verbatim>\<open>quoteTable\<close> is a table name or an object with the
  properties \<^verbatim>\<open>as\<close>, \<^verbatim>\<open>name\<close>, \<^verbatim>\<open>schema\<close>, \<^verbatim>\<open>tableName\<close> and
  \<^verbatim>\<open>delimiter\<close>; the second is left out (or \<^verbatim>\<open>false\<close>), \<^verbatim>\<open>true\<close> or a name.
\<close>

record table_descriptor =
  td_as :: "string option"
  td_name :: "string option"
  td_schema :: "string option"
  td_tableName :: string
  td_delimiter :: "string option"

datatype table_param = TableName string | TableObject table_descriptor

datatype alias_arg = NoAlias | AliasTrue | AliasName string

text \<open>
  The alias after \<^verbatim>\<open>alias = param.as || param.name || param\<close>: a string, or the
  descriptor object itself when it has neither property.
\<close>

datatype alias_value = AliasAbsent | AliasString string | AliasObject

fun derive_alias :: "table_param \<Rightarrow> alias_value" where
  "derive_alias (TableName s) = AliasString s"
| "derive_alias (TableObject d) =
     (if truthy_str (td_as d) then AliasString (the (td_as d))
      else if truthy_str (td_name d) then AliasString (the (td_name d))
      else AliasObject)"

fun resolve_alias :: "table_param \<Rightarrow> alias_arg \<Rightarrow> alias_value" where
  "resolve_alias param NoAlias = AliasAbsent"
| "resolve_alias param AliasTrue = derive_alias param"
| "resolve_alias param (AliasName a) = AliasString a"

definition quoteTable_body :: "generator \<Rightarrow> table_param \<Rightarrow> string" where
  "quoteTable_body qg param =
     (case param of
        TableObject d \<Rightarrow>
          (if supportsSchemas qg then
             (if truthy_str (td_schema d) then quoteIdentifier qg (the (td_schema d)) @ ''.''
              else []) @ quoteIdentifier qg (td_tableName d)
           else
             quoteIdentifier qg
               ((if truthy_str (td_schema d)
                 then the (td_schema d) @
                      (if truthy_str (td_delimiter d) then the (td_delimiter d) else ''.'')
                 else []) @ td_tableName d))
      | TableName s \<Rightarrow> quoteIdentifier qg s)"

definition quoteTable :: "generator \<Rightarrow> table_param \<Rightarrow> alias_arg \<Rightarrow> error + string" where
  "quoteTable qg param alias =
     (let table = quoteTable_body qg param in
      case resolve_alias param alias of
        AliasAbsent \<Rightarrow> Inr table
      | AliasString a \<Rightarrow>
          (if a \<noteq> [] then Inr (table @ '' AS '' @ quoteIdentifier qg a) else Inr table)
      | AliasObject \<Rightarrow> Inl NotAnIdentifier)"

subsection \<open>Escaping values\<close>

text \<open>
  The type of a field, as \<^verbatim>\<open>escape\<close> reads it: an optional \<^verbatim>\<open>validate\<close>
  (\<open>False\<close> stands for the validation error it throws), an optional
  \<^verbatim>\<open>stringify\<close>, and whether \<^verbatim>\<open>escape === false\<close>. The context handed to
  \<^verbatim>\<open>stringify\<close> holds the bound low-level escaper, the timezone and the operation
  (its \<^verbatim>\<open>field\<close> entry is left out).
\<close>

record escape_options =
  isList :: bool
  operation :: "string option"

record stringify_context =
  ctx_escape :: "jsval \<Rightarrow> string"
  ctx_timezone :: string
  ctx_operation :: "string option"

record field_type =
  validate :: "(jsval \<Rightarrow> escape_options \<Rightarrow> bool) option"
  stringify :: "(jsval \<Rightarrow> stringify_context \<Rightarrow> string) option"
  escape_is_false :: bool

record field =
  ftype :: "field_type option"

text \<open>The calls \<^verbatim>\<open>escape\<close> makes, in order, with the value each one receives.\<close>

datatype call =
    CallHandleMethod sequelize_method
  | CallValidate jsval
  | CallStringify jsval
  | CallSqlStringEscape jsval

text \<open>The loop over a list value stops at the first item that is rejected.\<close>

fun validate_items ::
  "(jsval \<Rightarrow> escape_options \<Rightarrow> bool) \<Rightarrow> escape_options \<Rightarrow> jsval list \<Rightarrow> call list \<times> bool"
where
  "validate_items v opts [] = ([], True)"
| "validate_items v opts (x # xs) =
     (if v x opts
      then (let (cs, ok) = validate_items v opts xs in (CallValidate x # cs, ok))
      else ([CallValidate x], False))"

definition run_validation ::
  "generator \<Rightarrow> field_type \<Rightarrow> jsval \<Rightarrow> escape_options \<Rightarrow> call list \<times> bool" where
  "run_validation qg ty value opts =
     (case validate ty of
        Some v \<Rightarrow>
          (if typeValidation qg \<and> truthy value then
             (case value of
                JArr items \<Rightarrow>
                  (if isList opts then validate_items v opts items
                   else validate_items v opts [value])
              | _ \<Rightarrow> validate_items v opts [value])
           else ([], True))
      | None \<Rightarrow> ([], True))"

definition generic_escape :: "generator \<Rightarrow> call list \<Rightarrow> jsval \<Rightarrow> call list \<times> (error + string)" where
  "generic_escape qg cs value =
     (cs @ [CallSqlStringEscape value],
      Inr (SqlString_escape qg value (timezone qg) (dialect qg)))"

definition field_type_of :: "field option \<Rightarrow> field_type option" where
  "field_type_of f = (case f of None \<Rightarrow> None | Some fd \<Rightarrow> ftype fd)"

definition escape ::
  "generator \<Rightarrow> jsval \<Rightarrow> field option \<Rightarrow> escape_options \<Rightarrow> call list \<times> (error + string)" where
  "escape qg value fld opts =
     (if value \<noteq> JNull \<and> value \<noteq> JUndefined then
        (case value of
           JMethod m \<Rightarrow> ([CallHandleMethod m], Inr (handleSequelizeMethod m))
         | _ \<Rightarrow>
           (case field_type_of fld of
              None \<Rightarrow> generic_escape qg [] value
            | Some ty \<Rightarrow>
                (let (cs, ok) = run_validation qg ty value opts in
                 if \<not> ok then (cs, Inl ValidationFailed)
                 else
                   (case stringify ty of
                      None \<Rightarrow> generic_escape qg cs value
                    | Some f \<Rightarrow>
                        (let simpleEscape = (\<lambda>v. SqlString_escape qg v (timezone qg) (dialect qg));
                             text = f value \<lparr>ctx_escape = simpleEscape,
                                             ctx_timezone = timezone qg,
                                             ctx_operation = operation opts\<rparr>
                         in if escape_is_false ty then (cs @ [CallStringify value], Inr text)
                            else generic_escape qg (cs @ [CallStringify value]) (JStr text))))))
      else generic_escape qg [] value)"

text \<open>The options of a call that passes none.\<close>

definition no_options :: escape_options where
  "no_options = \<lparr>isList = False, operation = None\<rparr>"

subsection \<open>JSON path extraction\<close>

text \<open>
  The path is a string or an array of strings. \<^verbatim>\<open>_.toPath\<close> of lodash returns an
  array of keys as it is and cuts a string at its dots; the empty string has no key.
  The bracket and quoted-key notation of lodash (\<^verbatim>\<open>a[0]\<close>, \<^verbatim>\<open>a["b.c"]\<close>) is not
  modelled: the strings considered contain no bracket.
\<close>

datatype json_path = PathString string | PathArray "string list"

fun toPath :: "json_path \<Rightarrow> string list" where
  "toPath (PathArray ps) = ps"
| "toPath (PathString s) = (if s = [] then [] else str_split CHR ''.'' s)"

text \<open>
  Modelled from the spec: \<^verbatim>\<open>Utils.addTicks\<close> is missing; each segment is wrapped
  in the tick character.
\<close>

definition addTicks :: "string \<Rightarrow> char \<Rightarrow> string" where
  "addTicks s tickChar = tickChar # s @ [tickChar]"

text \<open>
  \<^verbatim>\<open>.replace(/\.(\d+)(?:(?=\.)|$)/g, (_, digit) => `[${digit}]`)\<close>: a dot and the
  longest run of digits after it are replaced when the run is not empty and is followed by
  a dot or by the end; the dot that follows is not consumed.
\<close>

function bracket_digits :: "string \<Rightarrow> string" where
  "bracket_digits [] = []"
| "bracket_digits (c # cs) =
     (let digits = takeWhile isDigit cs; rest = dropWhile isDigit cs in
      if c = CHR ''.'' \<and> digits \<noteq> [] \<and> (rest = [] \<or> hd rest = CHR ''.'')
      then ''['' @ digits @ '']'' @ bracket_digits rest
      else c # bracket_digits cs)"
  by pat_completeness auto
termination
  by (relation "measure length") (auto simp: length_dropWhile_le less_Suc_eq_le)

definition quotedColumn :: "generator \<Rightarrow> string \<Rightarrow> string" where
  "quotedColumn qg column =
     (if isIdentifierQuoted qg column then column else quoteIdentifier qg column)"

definition jsonPathExtractionQuery :: "generator \<Rightarrow> string \<Rightarrow> json_path \<Rightarrow> error + string" where
  "jsonPathExtractionQuery qg column path =
     (let paths = toPath path in
      if dialect qg = ''mysql'' then
        (let pathStr = str_join ''.'' (''$'' # map (\<lambda>subPath. addTicks subPath (CHR 0x22)) paths)
         in Inr (''('' @ quotedColumn qg column @ ''->>'' @ [CHR 0x27] @ pathStr @ [CHR 0x27] @ '')''))
      else if dialect qg = ''sqlite'' then
        (case snd (escape qg (JStr (bracket_digits (str_join ''.'' (''$'' # paths)))) None no_options) of
           Inl e \<Rightarrow> Inl e
         | Inr pathStr \<Rightarrow>
             Inr (''json_extract('' @ quotedColumn qg column @ '', '' @ pathStr @ '')''))
      else if dialect qg = ''postgres'' then
        (case snd (escape qg (JStr (''{'' @ str_join '','' paths @ ''}'')) None no_options) of
           Inl e \<Rightarrow> Inl e
         | Inr pathStr \<Rightarrow>
             Inr (''('' @ quotedColumn qg column @ ''#>>'' @ pathStr @ '')''))
      else Inl (UnsupportedDialect (dialect qg)))"

subsection \<open>Models, associations and quote targets\<close>

text \<open>
  An attribute of \<^verbatim>\<open>rawAttributes\<close>: its column \<^verbatim>\<open>field\<close> and whether its
  \<^verbatim>\<open>type\<close> is an instance of \<^verbatim>\<open>DataTypes.JSON\<close>.
\<close>

record attribute =
  attr_field :: string
  attr_type_is_JSON :: bool

text \<open>
  A model class has a name and the objects \<^verbatim>\<open>associations\<close> and
  \<^verbatim>\<open>rawAttributes\<close>, either of which may be undefined. An association has its
  \<^verbatim>\<open>target\<close>, its alias \<^verbatim>\<open>as\<close> and, when it goes through a join model,
  \<^verbatim>\<open>through.model\<close>. The source of an association is not kept, and two models are
  the same model when their contents agree.
\<close>

datatype model =
  Model (model_name: string)
        (associations: "(string \<times> association) list option")
        (rawAttributes: "(string \<times> attribute) list option")
and association =
  Association (assoc_target: model) (assoc_as: string) (assoc_through: "model option")

text \<open>
  Modelled from the spec: the constructor of the association class is missing. For
  \<^verbatim>\<open>new Association(previousModel, model, {as: model.name})\<close> the spec has a direct
  edge to the model, aliased by the model's own name.
\<close>

definition new_Association :: "model \<Rightarrow> model \<Rightarrow> string \<Rightarrow> association" where
  "new_Association source tgt alias = Association tgt alias None"

text \<open>A plain object, read through its properties \<^verbatim>\<open>model\<close>, \<^verbatim>\<open>as\<close> and \<^verbatim>\<open>raw\<close>.\<close>

record plain_object =
  po_model :: "model option"
  po_as :: "string option"
  po_raw :: "jsval option"

text \<open>
  What \<^verbatim>\<open>quote\<close> may be handed: a string, an array, a model class, a plain object,
  an association, an attribute definition (an object whose \<^verbatim>\<open>_modelAttribute\<close> is
  set, read through \<^verbatim>\<open>Model.name\<close> and \<^verbatim>\<open>fieldName\<close>), a wrapper of
  \<^verbatim>\<open>Utils.SequelizeMethod\<close>, \<^verbatim>\<open>null\<close> or \<^verbatim>\<open>undefined\<close>, and any other
  truthy value.
\<close>

datatype target =
    TString string
  | TArray "target list"
  | TModel model
  | TPlainObject plain_object
  | TAssociation association
  | TModelAttribute string string
  | TMethod sequelize_method
  | TNullish
  | TOther

definition validOrderOptions :: "string list" where
  "validOrderOptions =
     [''ASC'', ''DESC'', ''ASC NULLS LAST'', ''DESC NULLS LAST'',
      ''ASC NULLS FIRST'', ''DESC NULLS FIRST'', ''NULLS FIRST'', ''NULLS LAST'']"

text \<open>\<^verbatim>\<open>xs.indexOf(x)\<close>, with \<open>None\<close> for -1.\<close>

fun indexOf :: "'a list \<Rightarrow> 'a \<Rightarrow> nat option" where
  "indexOf [] x = None"
| "indexOf (y # ys) x =
     (if y = x then Some 0 else map_option Suc (indexOf ys x))"

text \<open>
  Modelled from the spec: \<^verbatim>\<open>getAssociationForAlias\<close> belongs to the model class,
  which is missing; it looks up an association of the model to the given target that
  matches the given alias.
\<close>

definition getAssociationForAlias :: "model \<Rightarrow> model \<Rightarrow> string option \<Rightarrow> association option" where
  "getAssociationForAlias m tgt alias =
     (case associations m of
        None \<Rightarrow> None
      | Some assocs \<Rightarrow>
          find (\<lambda>a. assoc_target a = tgt \<and> Some (assoc_as a) = alias) (map snd assocs))"

text \<open>
  The objects \<^verbatim>\<open>associations\<close> and \<^verbatim>\<open>rawAttributes\<close> are object literals, so
  a read \<^verbatim>\<open>obj[key]\<close> finds an entry of the object itself or, failing that, a member
  that every object inherits from \<^verbatim>\<open>Object.prototype\<close>. An inherited member is
  truthy, it is no association, and its \<^verbatim>\<open>field\<close> and \<^verbatim>\<open>type\<close> are
  undefined.
\<close>

definition Object_prototype_names :: "string list" where
  "Object_prototype_names =
     [''constructor'', ''__defineGetter__'', ''__defineSetter__'', ''hasOwnProperty'',
      ''__lookupGetter__'', ''__lookupSetter__'', ''isPrototypeOf'', ''propertyIsEnumerable'',
      ''toString'', ''valueOf'', ''__proto__'', ''toLocaleString'']"

datatype 'v member = Own 'v | Inherited | Missing

text \<open>
  The read \<^verbatim>\<open>obj[key]\<close>. Every read of the source is guarded by
  \<^verbatim>\<open>obj !== undefined\<close>; for an undefined object the result is \<open>Missing\<close>.
\<close>

definition property :: "(string \<times> 'v) list option \<Rightarrow> string \<Rightarrow> 'v member" where
  "property obj k =
     (case obj of
        None \<Rightarrow> Missing
      | Some kvs \<Rightarrow>
          (case map_of kvs k of
             Some v \<Rightarrow> Own v
           | None \<Rightarrow> if k \<in> set Object_prototype_names then Inherited else Missing))"

subsection \<open>The rewriting pass of \<^verbatim>\<open>quote\<close>\<close>

text \<open>
  \<^verbatim>\<open>!previous\<close>: there is no previous element at index 0, and the empty string,
  \<^verbatim>\<open>null\<close> and \<^verbatim>\<open>undefined\<close> are falsy.
\<close>

fun falsy_previous :: "target option \<Rightarrow> bool" where
  "falsy_previous None = True"
| "falsy_previous (Some (TString s)) = (s = [])"
| "falsy_previous (Some TNullish) = True"
| "falsy_previous (Some t) = False"

text \<open>\<^verbatim>\<open>previousModel\<close> and \<^verbatim>\<open>previousAssociation\<close>.\<close>

definition previous_context ::
  "model option \<Rightarrow> target option \<Rightarrow> model option \<times> association option" where
  "previous_context parent previous =
     (if falsy_previous previous \<and> parent \<noteq> None then (parent, None)
      else (case previous of
              Some (TAssociation a) \<Rightarrow> (Some (assoc_target a), Some a)
            | _ \<Rightarrow> (None, None)))"

text \<open>The model an item denotes, with the alias of an \<^verbatim>\<open>{model, as}\<close> object.\<close>

fun item_model :: "target \<Rightarrow> (model \<times> string option) option" where
  "item_model (TModel m) = Some (m, None)"
| "item_model (TPlainObject p) =
     (case po_model p of None \<Rightarrow> None | Some m \<Rightarrow> Some (m, po_as p))"
| "item_model t = None"

definition resolve_association ::
  "model \<Rightarrow> association option \<Rightarrow> model \<Rightarrow> string option \<Rightarrow> error + target" where
  "resolve_association previousModel previousAssociation m alias =
     (if \<not> truthy_str alias \<and>
         (case previousAssociation of
            None \<Rightarrow> False
          | Some pa \<Rightarrow> assoc_through pa = Some m)
      then Inr (TAssociation (new_Association previousModel m (model_name m)))
      else
        (case getAssociationForAlias previousModel m alias of
           Some a \<Rightarrow> Inr (TAssociation a)
         | None \<Rightarrow>
             (case getAssociationForAlias previousModel m (Some (model_name m)) of
                Some a \<Rightarrow> Inr (TAssociation a)
              | None \<Rightarrow> Inl (AssociationNotFound (model_name m)))))"

text \<open>
  A string item: a direction after index 0, then (with a previous model) the name of an
  association, an attribute whose column has another name, or a dotted path into a JSON
  attribute. The attribute named by the first piece of a dotted string is read without
  a check that it exists. Where the read finds an inherited member: in
  \<^verbatim>\<open>associations\<close> the item becomes that member, which is none of the shapes
  \<^verbatim>\<open>quote\<close> knows; in \<^verbatim>\<open>rawAttributes\<close> the item becomes the member's
  \<^verbatim>\<open>field\<close>, which is undefined; and for the first piece of a dotted string the
  member's \<^verbatim>\<open>type\<close> is undefined, no JSON type, so the item stays as it is.
\<close>

definition rewrite_string :: "generator \<Rightarrow> nat \<Rightarrow> model option \<Rightarrow> string \<Rightarrow> error + target" where
  "rewrite_string qg index previousModel item =
     (let orderIndex = indexOf validOrderOptions (toUpperCase item) in
      if index > 0 \<and> orderIndex \<noteq> None
      then Inr (TMethod (Literal ('' '' @ validOrderOptions ! the orderIndex)))
      else
        (case previousModel of
           None \<Rightarrow> Inr (TString item)
         | Some pm \<Rightarrow>
             (let association = property (associations pm) item;
                  attribute = property (rawAttributes pm) item
              in
              if association \<noteq> Missing then
                (case association of Own a \<Rightarrow> Inr (TAssociation a) | _ \<Rightarrow> Inr TOther)
              else if (case attribute of
                         Own attr \<Rightarrow> item \<noteq> attr_field attr
                       | Inherited \<Rightarrow> True
                       | Missing \<Rightarrow> False)
              then (case attribute of
                      Own attr \<Rightarrow> Inr (TString (attr_field attr))
                    | _ \<Rightarrow> Inr TNullish)
              else if CHR ''.'' \<in> set item \<and> rawAttributes pm \<noteq> None then
                (let itemSplit = str_split CHR ''.'' item in
                 case property (rawAttributes pm) (hd itemSplit) of
                   Missing \<Rightarrow> Inl PropertyOfUndefined
                 | Inherited \<Rightarrow> Inr (TString item)
                 | Own attr \<Rightarrow>
                     (if attr_type_is_JSON attr then
                        (let identifier =
                               quoteIdentifiers qg (model_name pm @ ''.'' @ attr_field attr);
                             path = tl itemSplit
                         in case jsonPathExtractionQuery qg identifier (PathArray path) of
                              Inl e \<Rightarrow> Inl e
                            | Inr sql \<Rightarrow> Inr (TMethod (Literal sql)))
                      else Inr (TString item)))
              else Inr (TString item))))"

definition rewrite_item ::
  "generator \<Rightarrow> model option \<Rightarrow> nat \<Rightarrow> target option \<Rightarrow> target \<Rightarrow> error + target" where
  "rewrite_item qg parent index previous item =
     (let (previousModel, previousAssociation) = previous_context parent previous in
      case (case previousModel of
              None \<Rightarrow> Inr item
            | Some pm \<Rightarrow>
                (case item_model item of
                   None \<Rightarrow> Inr item
                 | Some (m, alias) \<Rightarrow> resolve_association pm previousAssociation m alias)) of
        Inl e \<Rightarrow> Inl e
      | Inr (TString s) \<Rightarrow> rewrite_string qg index previousModel s
      | Inr item' \<Rightarrow> Inr item')"

text \<open>
  \<^verbatim>\<open>collection.forEach\<close>: each item is rewritten in place, and the next one reads
  the rewritten item as its previous one.
\<close>

fun rewrite_from ::
  "generator \<Rightarrow> model option \<Rightarrow> nat \<Rightarrow> target option \<Rightarrow> target list \<Rightarrow> error + target list" where
  "rewrite_from qg parent index previous [] = Inr []"
| "rewrite_from qg parent index previous (item # rest) =
     (case rewrite_item qg parent index previous item of
        Inl e \<Rightarrow> Inl e
      | Inr item' \<Rightarrow>
          (case rewrite_from qg parent (Suc index) (Some item') rest of
             Inl e \<Rightarrow> Inl e
           | Inr rest' \<Rightarrow> Inr (item' # rest')))"

definition rewrite_collection :: "generator \<Rightarrow> model option \<Rightarrow> target list \<Rightarrow> error + target list" where
  "rewrite_collection qg parent collection = rewrite_from qg parent 0 None collection"

subsection \<open>The table names of a path and \<^verbatim>\<open>quote\<close>\<close>

text \<open>
  The loop over all items but the last one. It stops at a string, an attribute definition
  or a wrapper; an association stores its alias at its own index of
  \<^verbatim>\<open>tableNames\<close>; any other item is stepped over and leaves a hole there.
  Reading \<^verbatim>\<open>_modelAttribute\<close> of \<^verbatim>\<open>null\<close> or \<^verbatim>\<open>undefined\<close> throws.
\<close>

definition array_set :: "'a option list \<Rightarrow> nat \<Rightarrow> 'a \<Rightarrow> 'a option list" where
  "array_set xs i v =
     (if i < length xs then xs[i := Some v]
      else xs @ replicate (i - length xs) None @ [Some v])"

fun scan_tableNames ::
  "target list \<Rightarrow> nat \<Rightarrow> string option list \<Rightarrow> error + (nat \<times> string option list)" where
  "scan_tableNames [] i tableNames = Inr (i, tableNames)"
| "scan_tableNames (item # rest) i tableNames =
     (case item of
        TString s \<Rightarrow> Inr (i, tableNames)
      | TNullish \<Rightarrow> Inl PropertyOfUndefined
      | TModelAttribute m f \<Rightarrow> Inr (i, tableNames)
      | TMethod m \<Rightarrow> Inr (i, tableNames)
      | TAssociation a \<Rightarrow> scan_tableNames rest (Suc i) (array_set tableNames i (assoc_as a))
      | _ \<Rightarrow> scan_tableNames rest (Suc i) tableNames)"

text \<open>
  The elements at which the scan for table names stops: a string, an attribute definition
  or a wrapper.
\<close>

fun is_boundary :: "target \<Rightarrow> bool" where
  "is_boundary (TString s) = True"
| "is_boundary (TModelAttribute m f) = True"
| "is_boundary (TMethod m) = True"
| "is_boundary t = False"

fun is_string :: "target \<Rightarrow> bool" where
  "is_string (TString s) = True"
| "is_string t = False"

text \<open>\<^verbatim>\<open>tableNames.join(connector)\<close>: a hole is joined as the empty string.\<close>

definition join_tableNames :: "string \<Rightarrow> string option list \<Rightarrow> string" where
  "join_tableNames connector tableNames =
     str_join connector (map (\<lambda>n. case n of None \<Rightarrow> [] | Some a \<Rightarrow> a) tableNames)"

text \<open>The start of the SQL text, before the items from index \<open>i\<close> on are appended.\<close>

definition path_prefix ::
  "generator \<Rightarrow> model option \<Rightarrow> string \<Rightarrow> target list \<Rightarrow> nat \<Rightarrow> string option list \<Rightarrow> string" where
  "path_prefix qg parent connector items i tableNames =
     (if i > 0 then quoteIdentifier qg (join_tableNames connector tableNames) @ ''.''
      else
        (case (items, parent) of
           (TString s # rest, Some p) \<Rightarrow> quoteIdentifier qg (model_name p) @ ''.''
         | _ \<Rightarrow> []))"

text \<open>\<^verbatim>\<open>sql += ...\<close> over the remaining items; the first error ends it.\<close>

fun append_all :: "string \<Rightarrow> (error + string) list \<Rightarrow> error + string" where
  "append_all sql [] = Inr sql"
| "append_all sql (r # rs) =
     (case r of Inl e \<Rightarrow> Inl e | Inr s \<Rightarrow> append_all (sql @ s) rs)"

text \<open>\<^verbatim>\<open>connector = connector || '.'\<close>: a connector left out is the empty string here.\<close>

definition default_connector :: "string \<Rightarrow> string" where
  "default_connector connector = (if connector = [] then ''.'' else connector)"

text \<open>The nesting of arrays in a target; the rewriting pass does not add to it.\<close>

fun asize :: "target \<Rightarrow> nat" where
  "asize (TArray xs) = Suc (sum_list (map asize xs))"
| "asize t = 0"

lemma rewrite_string_asize:
  "rewrite_string qg index pm s = Inr t \<Longrightarrow> asize t = 0"
  by (auto simp: rewrite_string_def Let_def
           split: if_splits option.splits sum.splits member.splits)

lemma resolve_association_asize:
  "resolve_association pm pa m alias = Inr t \<Longrightarrow> asize t = 0"
  by (auto simp: resolve_association_def split: if_splits option.splits)

lemma rewrite_item_asize:
  "rewrite_item qg parent index previous item = Inr t \<Longrightarrow> asize t \<le> asize item"
  by (cases item)
     (auto simp: rewrite_item_def Let_def
           split: prod.splits option.splits sum.splits target.splits
           dest: rewrite_string_asize resolve_association_asize)

lemma rewrite_from_asize:
  "rewrite_from qg parent index previous xs = Inr ys \<Longrightarrow>
     sum_list (map asize ys) \<le> sum_list (map asize xs)"
proof (induction xs arbitrary: index previous ys)
  case Nil
  then show ?case by simp
next
  case (Cons x xs)
  then show ?case
    by (fastforce split: sum.splits dest: rewrite_item_asize)
qed

lemma asize_member: "y \<in> set ys \<Longrightarrow> asize y \<le> sum_list (map asize ys)"
  by (induction ys) auto

lemma rewritten_item_smaller:
  assumes "rewrite_collection qg parent xs = Inr ys" and "y \<in> set (drop i ys)"
  shows "asize y < asize (TArray xs)"
proof -
  have "y \<in> set ys" using assms(2) by (rule in_set_dropD)
  then have "asize y \<le> sum_list (map asize ys)" by (rule asize_member)
  also have "\<dots> \<le> sum_list (map asize xs)"
    using assms(1) unfolding rewrite_collection_def by (rule rewrite_from_asize)
  finally show ?thesis by simp
qed

function quote :: "generator \<Rightarrow> target \<Rightarrow> model option \<Rightarrow> string \<Rightarrow> error + string" where
  "quote qg (TString s) parent connector = Inr (quoteIdentifiers qg s)"
| "quote qg (TArray collection) parent connector =
     (case rewrite_collection qg parent collection of
        Inl e \<Rightarrow> Inl e
      | Inr items \<Rightarrow>
          (case scan_tableNames (take (length items - 1) items) 0 [] of
             Inl e \<Rightarrow> Inl e
           | Inr (i, tableNames) \<Rightarrow>
               append_all
                 (path_prefix qg parent (default_connector connector) items i tableNames)
                 (map (\<lambda>collectionItem.
                         quote qg collectionItem parent (default_connector connector))
                      (drop i items))))"
| "quote qg (TModelAttribute modelName fieldName) parent connector =
     (case quoteTable qg (TableName modelName) NoAlias of
        Inl e \<Rightarrow> Inl e
      | Inr table \<Rightarrow> Inr (table @ ''.'' @ quoteIdentifier qg fieldName))"
| "quote qg (TMethod m) parent connector = Inr (handleSequelizeMethod m)"
| "quote qg (TPlainObject p) parent connector =
     (if (case po_raw p of None \<Rightarrow> False | Some raw \<Rightarrow> truthy raw)
      then Inl RawSyntaxRemoved else Inl UnknownStructure)"
| "quote qg TNullish parent connector = Inl PropertyOfUndefined"
| "quote qg (TModel m) parent connector = Inl UnknownStructure"
| "quote qg (TAssociation a) parent connector = Inl UnknownStructure"
| "quote qg TOther parent connector = Inl UnknownStructure"
  by pat_completeness auto
termination
  by (relation "measure (\<lambda>(qg, t, parent, connector). asize t)")
     (auto dest: rewritten_item_smaller)

subsection \<open>Concrete generators\<close>

text \<open>
  The low-level escaper is a parameter. For the concrete generators below it is an escaper
  in the manner the spec describes: text is put between single quotes, a single quote
  inside it is doubled, \<^verbatim>\<open>null\<close> and \<^verbatim>\<open>undefined\<close> give NULL.
\<close>

fun decimal :: "nat \<Rightarrow> string" where
  "decimal n =
     (if n < 10 then [char_of (48 + n)]
      else decimal (n div 10) @ [char_of (48 + n mod 10)])"

declare decimal.simps [simp del]

fun example_escape :: "jsval \<Rightarrow> string \<Rightarrow> string \<Rightarrow> string" where
  "example_escape JNull tz d = ''NULL''"
| "example_escape JUndefined tz d = ''NULL''"
| "example_escape (JBool b) tz d = (if b then ''true'' else ''false'')"
| "example_escape (JNum n) tz d =
     (if n < 0 then ''-'' @ decimal (nat (- n)) else decimal (nat n))"
| "example_escape (JStr s) tz d =
     [CHR 0x27] @ concat (map (\<lambda>c. if c = CHR 0x27 then [c, c] else [c]) s) @ [CHR 0x27]"
| "example_escape (JArr xs) tz d = str_join '', '' (map (\<lambda>x. example_escape x tz d) xs)"
| "example_escape (JMethod m) tz d = handleSequelizeMethod m"

definition postgres_generator :: generator where
  "postgres_generator =
     \<lparr>dialect = ''postgres'', identifierQuoteChar = CHR 0x22, supportsSchemas = True,
      quoteIdentifiersOption = True, timezone = ''+00:00'', typeValidation = True,
      SqlString_escape = example_escape\<rparr>"

definition mysql_generator :: generator where
  "mysql_generator =
     \<lparr>dialect = ''mysql'', identifierQuoteChar = CHR 0x60, supportsSchemas = False,
      quoteIdentifiersOption = True, timezone = ''+00:00'', typeValidation = True,
      SqlString_escape = example_escape\<rparr>"

definition sqlite_generator :: generator where
  "sqlite_generator =
     \<lparr>dialect = ''sqlite'', identifierQuoteChar = CHR 0x60, supportsSchemas = False,
      quoteIdentifiersOption = True, timezone = ''+00:00'', typeValidation = True,
      SqlString_escape = example_escape\<rparr>"

text \<open>A generator that leaves identifiers unquoted, as the option allows.\<close>

definition unquoted :: "generator \<Rightarrow> generator" where
  "unquoted qg = qg\<lparr>quoteIdentifiersOption := False\<rparr>"

text \<open>Two models: a user has many posts, under the alias posts.\<close>

definition Post :: model where
  "Post = Model ''Post'' (Some [])
     (Some [(''title'', \<lparr>attr_field = ''title'', attr_type_is_JSON = False\<rparr>),
            (''meta'', \<lparr>attr_field = ''meta_data'', attr_type_is_JSON = True\<rparr>)])"

definition User :: model where
  "User = Model ''User'' (Some [(''posts'', Association Post ''posts'' None)])
     (Some [(''name'', \<lparr>attr_field = ''name'', attr_type_is_JSON = False\<rparr>),
            (''data'', \<lparr>attr_field = ''data'', attr_type_is_JSON = True\<rparr>)])"

text \<open>
  A field type whose validator rejects every value and whose stringifier writes the
  number 0, the empty string and false as \<open>0\<close>.
\<close>

definition strict_type :: field_type where
  "strict_type =
     \<lparr>validate = Some (\<lambda>v opts. False),
      stringify = Some (\<lambda>v ctx. ''0''),
      escape_is_false = False\<rparr>"

text \<open>The descriptor of a model User whose table is Users.\<close>

definition users_table :: table_descriptor where
  "users_table = \<lparr>td_as = None, td_name = Some ''User'', td_schema = None,
                  td_tableName = ''Users'', td_delimiter = None\<rparr>"

text \<open>
  The prefix of a path in the words of the spec: the aliases of the association edges
  before the boundary, joined by the connector and quoted as one identifier, with a dot;
  without edges, the name of the parent model, quoted, with a dot, when the boundary is a
  bare string and there is a parent model.
\<close>

definition prefix_by_spec ::
  "generator \<Rightarrow> model option \<Rightarrow> string \<Rightarrow> association list \<Rightarrow> target \<Rightarrow> string" where
  "prefix_by_spec qg parent connector edges boundary =
     (if edges \<noteq> [] then quoteIdentifier qg (str_join connector (map assoc_as edges)) @ ''.''
      else if is_string boundary \<and> parent \<noteq> None
           then quoteIdentifier qg (model_name (the parent)) @ ''.''
      else [])"

text \<open>
  A model with a dot in the name of an association and in the name of an attribute; the
  attribute is stored in the column ab.
\<close>

definition Event :: model where
  "Event = Model ''Event'' (Some [(''x.y'', Association Post ''x.y'' None)])
     (Some [(''a.b'', \<lparr>attr_field = ''ab'', attr_type_is_JSON = False\<rparr>)])"

text \<open>
  The table of a descriptor in the words of the spec: with a schema, the quoted schema,
  a dot and the quoted table name when the dialect supports schemas, and otherwise
  schema, delimiter and table name quoted together as one identifier; without a schema,
  the quoted table name.
\<close>

definition table_by_spec :: "generator \<Rightarrow> table_descriptor \<Rightarrow> string" where
  "table_by_spec qg d =
     (if truthy_str (td_schema d) then
        (if supportsSchemas qg
         then quoteIdentifier qg (the (td_schema d)) @ ''.'' @ quoteIdentifier qg (td_tableName d)
         else quoteIdentifier qg
                (the (td_schema d) @
                 (if truthy_str (td_delimiter d) then the (td_delimiter d) else ''.'') @
                 td_tableName d))
      else quoteIdentifier qg (td_tableName d))"

section \<open>Properties\<close>

subsection \<open>Identifier quoting\<close>

text \<open>
  Claim C3, as stated: for every non-empty string \<open>x\<close> and every dialect profile, also one
  where identifier quoting is globally disabled, \<open>isIdentifierQuoted (quoteIdentifier x)\<close>
  is true. It fails in the postgres profile with quoting disabled: \<open>abc\<close> comes back
  as it went in.
\<close>

theorem quoteIdentifier_unquoted_counterexample:
  "\<not> isIdentifierQuoted (unquoted postgres_generator)
       (quoteIdentifier (unquoted postgres_generator) ''abc'')"
  by code_simp

text \<open>
  Claim C3, amended: for every non-empty string \<open>x\<close> and every dialect profile in which
  identifier quoting is enabled, the quoted identifier is recognised as quoted; so is,
  in every profile, an identifier quoted with \<open>force\<close>.
\<close>

theorem quoteIdentifier_is_quoted:
  "x \<noteq> [] \<Longrightarrow>
     (quoteIdentifiersOption qg \<longrightarrow> isIdentifierQuoted qg (quoteIdentifier qg x)) \<and>
     isIdentifierQuoted qg (quoteIdentifier_force qg x True)"
  by (simp add: isIdentifierQuoted_def quoteIdentifier_def quoteIdentifier_force_def
        QuoteHelper_quoteIdentifier_def QuoteHelper_isIdentifierQuoted_def)

theorem quoteIdentifier_is_quoted_witness:
  "''abc'' \<noteq> [] \<and> quoteIdentifiersOption postgres_generator \<and>
   isIdentifierQuoted postgres_generator (quoteIdentifier postgres_generator ''abc'') \<and>
   isIdentifierQuoted (unquoted postgres_generator)
     (quoteIdentifier_force (unquoted postgres_generator) ''abc'' True)"
  using quoteIdentifier_is_quoted [of "''abc''" postgres_generator]
        quoteIdentifier_is_quoted [of "''abc''" "unquoted postgres_generator"]
  by (simp add: postgres_generator_def)

text \<open>Splitting at a separator and joining again.\<close>

lemma str_split_not_Nil: "str_split d s \<noteq> []"
  by (induction s) (auto split: list.splits)

lemma str_join_Cons_char: "str_join sep ((c # w) # ws) = c # str_join sep (w # ws)"
  by (cases ws) auto

lemma str_join_split: "str_join [d] (str_split d s) = s"
proof (induction s)
  case Nil
  then show ?case by simp
next
  case (Cons c cs)
  obtain w ws where ws: "str_split d cs = w # ws"
    using str_split_not_Nil [of d cs] by (cases "str_split d cs") auto
  show ?case
  proof (cases "c = d")
    case True
    then show ?thesis using Cons ws by simp
  next
    case False
    then show ?thesis using Cons ws by (simp add: str_join_Cons_char)
  qed
qed

lemma str_split_no_separator: "d \<notin> set s \<Longrightarrow> str_split d s = [s]"
  by (induction s) auto

lemma str_split_append: "str_split d (h @ d # t) = str_split d h @ str_split d t"
proof (induction h)
  case Nil
  then show ?case by simp
next
  case (Cons c cs)
  obtain w ws where ws: "str_split d cs = w # ws"
    using str_split_not_Nil [of d cs] by (cases "str_split d cs") auto
  show ?case using Cons ws by simp
qed

lemma quoteIdentifiers_last_dot:
  assumes "CHR ''.'' \<notin> set tail"
  shows "quoteIdentifiers qg (head @ ''.'' @ tail) =
         quoteIdentifier qg head @ ''.'' @ quoteIdentifier qg tail"
proof -
  have parts: "str_split CHR ''.'' (head @ CHR ''.'' # tail) = str_split CHR ''.'' head @ [tail]"
    using assms by (simp add: str_split_append str_split_no_separator)
  show ?thesis
    by (simp add: quoteIdentifiers_def parts Let_def str_join_split nth_append)
qed

lemma last_dot_decomposition:
  "CHR ''.'' \<in> set s \<Longrightarrow> \<exists>head tail. s = head @ ''.'' @ tail \<and> CHR ''.'' \<notin> set tail"
  using split_list_last [of "CHR ''.''" s] by auto

lemma quoteIdentifiers_no_dot:
  "CHR ''.'' \<notin> set s \<Longrightarrow> quoteIdentifiers qg s = quoteIdentifier qg s"
  by (simp add: quoteIdentifiers_def)

text \<open>
  Claim C6: a string with at least one dot is cut at its last dot only. The head, all that
  stands before the last dot, is quoted as one identifier, the tail is quoted on its own,
  and the two are joined by a dot; \<open>a.b.c\<close> in a dialect that quotes with the double quote
  gives \<open>"a.b"."c"\<close>.
\<close>

theorem quoteIdentifiers_splits_at_last_dot:
  assumes "CHR ''.'' \<in> set s"
  shows \<open>(\<exists>head tail. s = head @ ''.'' @ tail \<and> CHR ''.'' \<notin> set tail \<and>
            quoteIdentifiers qg s = quoteIdentifier qg head @ ''.'' @ quoteIdentifier qg tail) \<and>
         (identifierQuoteChar qg = CHR 0x22 \<and> quoteIdentifiersOption qg \<longrightarrow>
            quoteIdentifiers qg ''a.b.c'' = ''"a.b"."c"'')\<close>
proof
  show "\<exists>head tail. s = head @ ''.'' @ tail \<and> CHR ''.'' \<notin> set tail \<and>
          quoteIdentifiers qg s = quoteIdentifier qg head @ ''.'' @ quoteIdentifier qg tail"
    using last_dot_decomposition [OF assms] quoteIdentifiers_last_dot by blast
next
  have "quoteIdentifiers qg (''a.b'' @ ''.'' @ ''c'') =
          quoteIdentifier qg ''a.b'' @ ''.'' @ quoteIdentifier qg ''c''"
    by (rule quoteIdentifiers_last_dot) simp
  then show \<open>identifierQuoteChar qg = CHR 0x22 \<and> quoteIdentifiersOption qg \<longrightarrow>
          quoteIdentifiers qg ''a.b.c'' = ''"a.b"."c"''\<close>
    by (simp add: quoteIdentifier_def quoteIdentifier_force_def
          QuoteHelper_quoteIdentifier_def QuoteHelper_isIdentifierQuoted_def)
qed

theorem quoteIdentifiers_splits_at_last_dot_witness:
  \<open>CHR ''.'' \<in> set ''a.b.c'' \<and>
   identifierQuoteChar postgres_generator = CHR 0x22 \<and>
   quoteIdentifiersOption postgres_generator \<and>
   quoteIdentifiers postgres_generator ''a.b.c'' = ''"a.b"."c"''\<close>
proof -
  have dot: "CHR ''.'' \<in> set ''a.b.c''" by simp
  have pg: "identifierQuoteChar postgres_generator = CHR 0x22 \<and>
            quoteIdentifiersOption postgres_generator"
    by (simp add: postgres_generator_def)
  show ?thesis
    using dot pg quoteIdentifiers_splits_at_last_dot [OF dot, of postgres_generator]
    by simp
qed

subsection \<open>Plain objects with \<^verbatim>\<open>raw\<close>\<close>

text \<open>
  Claim C8: for every plain object whose \<^verbatim>\<open>raw\<close> property is set, in every dialect
  profile, normalising the object fails with the removed-feature error, and no dialect
  gives any output for it. Set is what the source tests, \<^verbatim>\<open>collection.raw\<close> being
  truthy; the second part shows that a plain object gives no output whatever its
  \<^verbatim>\<open>raw\<close> is.
\<close>

theorem quote_raw_object_removed:
  "((case po_raw p of None \<Rightarrow> False | Some raw \<Rightarrow> truthy raw) \<longrightarrow>
      quote qg (TPlainObject p) parent connector = Inl RawSyntaxRemoved) \<and>
   (\<forall>sql. quote qg (TPlainObject p) parent connector \<noteq> Inr sql)"
  by simp

theorem quote_raw_object_removed_witness:
  "truthy (JStr ''anything'') \<and>
   quote postgres_generator
     (TPlainObject \<lparr>po_model = None, po_as = None, po_raw = Some (JStr ''anything'')\<rparr>)
     None [] = Inl RawSyntaxRemoved \<and>
   quote mysql_generator
     (TPlainObject \<lparr>po_model = None, po_as = None, po_raw = Some (JStr ''anything'')\<rparr>)
     (Some User) [] = Inl RawSyntaxRemoved"
  using quote_raw_object_removed
          [of "\<lparr>po_model = None, po_as = None, po_raw = Some (JStr ''anything'')\<rparr>"
              postgres_generator None "[]"]
        quote_raw_object_removed
          [of "\<lparr>po_model = None, po_as = None, po_raw = Some (JStr ''anything'')\<rparr>"
              mysql_generator "Some User" "[]"]
  by (simp del: quote.simps)

subsection \<open>Escaping a falsy value\<close>

text \<open>
  Claim C9: a value that is falsy but present (0, the empty string, false) is never
  validated, even with type validation enabled and a field type that defines
  \<^verbatim>\<open>validate\<close>: no call of \<^verbatim>\<open>validate\<close> is made, and the value goes on to the
  custom stringifier of the type, if it has one, and to the generic escaper (unless the
  type says that its text is already escaped).
\<close>

theorem escape_skips_validation_of_falsy_value:
  assumes present: "value \<noteq> JNull \<and> value \<noteq> JUndefined"
      and falsy: "\<not> truthy value"
      and enabled: "typeValidation qg"
      and validator: "validate ty = Some v"
      and fld: "field_type_of fld = Some ty"
  shows "(\<forall>x. CallValidate x \<notin> set (fst (escape qg value fld opts))) \<and>
         escape qg value fld opts =
           (case stringify ty of
              None \<Rightarrow>
                ([CallSqlStringEscape value],
                 Inr (SqlString_escape qg value (timezone qg) (dialect qg)))
            | Some f \<Rightarrow>
                (let text = f value
                       \<lparr>ctx_escape = (\<lambda>v. SqlString_escape qg v (timezone qg) (dialect qg)),
                        ctx_timezone = timezone qg, ctx_operation = operation opts\<rparr>
                 in if escape_is_false ty then ([CallStringify value], Inr text)
                    else ([CallStringify value, CallSqlStringEscape (JStr text)],
                          Inr (SqlString_escape qg (JStr text) (timezone qg) (dialect qg)))))"
proof -
  have rv: "run_validation qg ty value opts = ([], True)"
    using falsy validator by (simp add: run_validation_def)
  have e: "escape qg value fld opts =
           (case stringify ty of
              None \<Rightarrow>
                ([CallSqlStringEscape value],
                 Inr (SqlString_escape qg value (timezone qg) (dialect qg)))
            | Some f \<Rightarrow>
                (let text = f value
                       \<lparr>ctx_escape = (\<lambda>v. SqlString_escape qg v (timezone qg) (dialect qg)),
                        ctx_timezone = timezone qg, ctx_operation = operation opts\<rparr>
                 in if escape_is_false ty then ([CallStringify value], Inr text)
                    else ([CallStringify value, CallSqlStringEscape (JStr text)],
                          Inr (SqlString_escape qg (JStr text) (timezone qg) (dialect qg)))))"
    using present falsy rv fld
    by (cases "value")
       (simp_all add: escape_def generic_escape_def Let_def split: option.splits)
  show ?thesis
    unfolding e by (simp add: Let_def split: option.splits)
qed

theorem escape_skips_validation_of_falsy_value_witness:
  "JNum 0 \<noteq> JNull \<and> JNum 0 \<noteq> JUndefined \<and> \<not> truthy (JNum 0) \<and>
   typeValidation postgres_generator \<and>
   validate strict_type = Some (\<lambda>v opts. False) \<and>
   field_type_of (Some \<lparr>ftype = Some strict_type\<rparr>) = Some strict_type \<and>
   escape postgres_generator (JNum 0) (Some \<lparr>ftype = Some strict_type\<rparr>) no_options =
     ([CallStringify (JNum 0), CallSqlStringEscape (JStr ''0'')],
      Inr [CHR 0x27, CHR ''0'', CHR 0x27]) \<and>
   escape postgres_generator (JNum 1) (Some \<lparr>ftype = Some strict_type\<rparr>) no_options =
     ([CallValidate (JNum 1)], Inl ValidationFailed)"
proof -
  have h: "JNum 0 \<noteq> JNull \<and> JNum 0 \<noteq> JUndefined" "\<not> truthy (JNum 0)"
    "typeValidation postgres_generator"
    "validate strict_type = Some (\<lambda>v opts. False)"
    "field_type_of (Some \<lparr>ftype = Some strict_type\<rparr>) = Some strict_type"
    by (simp_all add: postgres_generator_def strict_type_def field_type_of_def)
  have rejected:
    "escape postgres_generator (JNum 1) (Some \<lparr>ftype = Some strict_type\<rparr>) no_options =
       ([CallValidate (JNum 1)], Inl ValidationFailed)"
    by (simp add: escape_def field_type_of_def run_validation_def strict_type_def
          postgres_generator_def no_options_def)
  show ?thesis
    using h rejected
      escape_skips_validation_of_falsy_value [OF h, of no_options]
    by (simp add: strict_type_def postgres_generator_def)
qed

subsection \<open>Table references\<close>

text \<open>
  Claim C4, as stated: with \<^verbatim>\<open>alias === true\<close> the alias is taken from the
  descriptor's alias, then from its \<^verbatim>\<open>tableName\<close>, then from the bare name. The
  source reads \<^verbatim>\<open>param.as || param.name || param\<close>: a descriptor without
  \<^verbatim>\<open>as\<close> is aliased by its \<^verbatim>\<open>name\<close>, not by its \<^verbatim>\<open>tableName\<close>.
\<close>

theorem quoteTable_alias_from_name_counterexample:
  \<open>quoteTable postgres_generator (TableObject users_table) AliasTrue =
     Inr ''"Users" AS "User"'' \<and>
   quoteTable postgres_generator (TableObject users_table) AliasTrue \<noteq>
     Inr (quoteIdentifier postgres_generator (td_tableName users_table) @ '' AS '' @
          quoteIdentifier postgres_generator (td_tableName users_table))\<close>
  by code_simp

text \<open>
  Claim C4, amended: with \<^verbatim>\<open>alias === true\<close> the alias is the descriptor's
  \<^verbatim>\<open>as\<close>, else its \<^verbatim>\<open>name\<close>, else the argument itself: the name for
  a bare name, and for a descriptor with neither property the descriptor object, never
  its \<^verbatim>\<open>tableName\<close>. A descriptor with a schema gives
  \<open>quote(schema) . quote(tableName)\<close> when the dialect supports schemas, and
  otherwise schema, delimiter (a dot by default) and table name quoted together as one
  identifier; a descriptor without a schema gives the quoted table name. An alias that is a non-empty string is appended after \<open>AS\<close>, quoted, and
  without an alias the table stands alone.
\<close>

theorem quoteTable_schema_and_alias:
  "quoteTable qg (TableObject d) NoAlias = Inr (table_by_spec qg d) \<and>
   quoteTable qg (TableName n) NoAlias = Inr (quoteIdentifier qg n) \<and>
   (td_as d = Some a \<and> a \<noteq> [] \<longrightarrow>
      quoteTable qg (TableObject d) AliasTrue =
        Inr (table_by_spec qg d @ '' AS '' @ quoteIdentifier qg a)) \<and>
   (\<not> truthy_str (td_as d) \<and> td_name d = Some a \<and> a \<noteq> [] \<longrightarrow>
      quoteTable qg (TableObject d) AliasTrue =
        Inr (table_by_spec qg d @ '' AS '' @ quoteIdentifier qg a)) \<and>
   (\<not> truthy_str (td_as d) \<and> \<not> truthy_str (td_name d) \<longrightarrow>
      resolve_alias (TableObject d) AliasTrue = AliasObject) \<and>
   (n \<noteq> [] \<longrightarrow>
      quoteTable qg (TableName n) AliasTrue =
        Inr (quoteIdentifier qg n @ '' AS '' @ quoteIdentifier qg n)) \<and>
   (b \<noteq> [] \<longrightarrow>
      quoteTable qg (TableObject d) (AliasName b) =
        Inr (table_by_spec qg d @ '' AS '' @ quoteIdentifier qg b) \<and>
      quoteTable qg (TableName n) (AliasName b) =
        Inr (quoteIdentifier qg n @ '' AS '' @ quoteIdentifier qg b)) \<and>
   (td_schema d = Some s \<and> s \<noteq> [] \<longrightarrow>
      table_by_spec qg d =
        (if supportsSchemas qg
         then quoteIdentifier qg s @ ''.'' @ quoteIdentifier qg (td_tableName d)
         else quoteIdentifier qg
                (s @ (if truthy_str (td_delimiter d) then the (td_delimiter d) else ''.'') @
                 td_tableName d))) \<and>
   (\<not> truthy_str (td_schema d) \<longrightarrow> table_by_spec qg d = quoteIdentifier qg (td_tableName d))"
  by (auto simp: quoteTable_def quoteTable_body_def table_by_spec_def)

theorem quoteTable_schema_and_alias_witness:
  \<open>quoteTable postgres_generator (TableObject users_table) AliasTrue =
     Inr ''"Users" AS "User"'' \<and>
   quoteTable postgres_generator (TableObject (users_table\<lparr>td_as := Some ''u''\<rparr>)) AliasTrue =
     Inr ''"Users" AS "u"'' \<and>
   quoteTable postgres_generator
      (TableObject (users_table\<lparr>td_schema := Some ''app''\<rparr>)) NoAlias =
     Inr ''"app"."Users"'' \<and>
   quoteTable postgres_generator
      (TableObject (users_table\<lparr>td_schema := Some ''app''\<rparr>)) AliasTrue =
     Inr ''"app"."Users" AS "User"'' \<and>
   quoteTable mysql_generator
      (TableObject (users_table\<lparr>td_schema := Some ''app''\<rparr>)) AliasTrue =
     Inr ''`app.Users` AS `User`'' \<and>
   quoteTable mysql_generator (TableName ''Users'') AliasTrue =
     Inr ''`Users` AS `Users`'' \<and>
   quoteTable mysql_generator
      (TableObject (users_table\<lparr>td_schema := Some ''app''\<rparr>)) (AliasName ''t'') =
     Inr ''`app.Users` AS `t`'' \<and>
   resolve_alias (TableObject (users_table\<lparr>td_name := None\<rparr>)) AliasTrue = AliasObject\<close>
  using quoteTable_schema_and_alias
          [of postgres_generator "users_table\<lparr>td_name := None\<rparr>" "''Users''" "''User''"
              "''t''" "''app''"]
        quoteTable_schema_and_alias
          [of postgres_generator users_table "''Users''" "''User''" "''t''" "''app''"]
        quoteTable_schema_and_alias
          [of postgres_generator "users_table\<lparr>td_as := Some ''u''\<rparr>" "''Users''" "''u''"
              "''t''" "''app''"]
        quoteTable_schema_and_alias
          [of postgres_generator "users_table\<lparr>td_schema := Some ''app''\<rparr>" "''Users''"
              "''User''" "''t''" "''app''"]
        quoteTable_schema_and_alias
          [of mysql_generator "users_table\<lparr>td_schema := Some ''app''\<rparr>" "''Users''"
              "''User''" "''t''" "''app''"]
  by (simp add: users_table_def postgres_generator_def mysql_generator_def
        quoteIdentifier_def quoteIdentifier_force_def QuoteHelper_quoteIdentifier_def
        QuoteHelper_isIdentifierQuoted_def)


subsection \<open>JSON path extraction\<close>

lemma bracket_digits_example: "bracket_digits ''$.a.0.b'' = ''$.a[0].b''"
  by code_simp

lemma str_split_example: "str_split CHR ''.'' ''a.0.b'' = [''a'', ''0'', ''b'']"
  by code_simp

lemma data_not_quoted: "\<not> isIdentifierQuoted qg ''data''"
  by (cases "identifierQuoteChar qg = CHR ''d''")
     (auto simp: isIdentifierQuoted_def QuoteHelper_isIdentifierQuoted_def)

text \<open>
  Claim C2, as stated: for the column \<open>data\<close> and the path \<open>a.0.b\<close> the three dialects
  return the column bare, as in \<open>(data->>'$."a"."0"."b"')\<close>. With identifier quoting
  enabled the column is quoted in all three.
\<close>

theorem jsonPathExtractionQuery_quotes_column_counterexample:
  \<open>jsonPathExtractionQuery mysql_generator ''data'' (PathString ''a.0.b'') =
     Inr ''(`data`->>'$."a"."0"."b"')'' \<and>
   jsonPathExtractionQuery mysql_generator ''data'' (PathString ''a.0.b'') \<noteq>
     Inr ''(data->>'$."a"."0"."b"')'' \<and>
   jsonPathExtractionQuery sqlite_generator ''data'' (PathString ''a.0.b'') =
     Inr ''json_extract(`data`, '$.a[0].b')'' \<and>
   jsonPathExtractionQuery postgres_generator ''data'' (PathString ''a.0.b'') =
     Inr ''("data"#>>'{a,0,b}')''\<close>
  by code_simp

text \<open>
  Claim C2, amended: for a column \<open>c\<close> and the path \<open>a.0.b\<close> the result is
  \<open>(Q->>'$."a"."0"."b"')\<close> in mysql, \<open>json_extract(Q, L)\<close> in sqlite with \<open>L\<close> the
  escaped literal of \<open>$.a[0].b\<close>, and \<open>(Q#>>L)\<close> in postgres with \<open>L\<close> the escaped
  literal of \<open>{a,0,b}\<close>, where \<open>Q\<close> is \<open>c\<close> quoted as an identifier unless it is
  already quoted. For \<open>data\<close>, which is not quoted, \<open>Q\<close> is \<open>data\<close> between quote
  characters, and bare only when identifier quoting is disabled.
\<close>

theorem jsonPathExtractionQuery_a_0_b:
  \<open>jsonPathExtractionQuery qg column (PathString ''a.0.b'') =
     (let quoted = (if isIdentifierQuoted qg column then column else quoteIdentifier qg column) in
      if dialect qg = ''mysql'' then
        Inr (''('' @ quoted @ ''->>'$."a"."0"."b"')'')
      else if dialect qg = ''sqlite'' then
        Inr (''json_extract('' @ quoted @ '', '' @
             SqlString_escape qg (JStr ''$.a[0].b'') (timezone qg) (dialect qg) @ '')'')
      else if dialect qg = ''postgres'' then
        Inr (''('' @ quoted @ ''#>>'' @
             SqlString_escape qg (JStr ''{a,0,b}'') (timezone qg) (dialect qg) @ '')'')
      else Inl (UnsupportedDialect (dialect qg))) \<and>
   \<not> isIdentifierQuoted qg ''data'' \<and>
   quoteIdentifier qg ''data'' =
     (if quoteIdentifiersOption qg
      then [identifierQuoteChar qg] @ ''data'' @ [identifierQuoteChar qg] else ''data'')\<close>
proof (intro conjI)
  show \<open>jsonPathExtractionQuery qg column (PathString ''a.0.b'') =
     (let quoted = (if isIdentifierQuoted qg column then column else quoteIdentifier qg column) in
      if dialect qg = ''mysql'' then
        Inr (''('' @ quoted @ ''->>'$."a"."0"."b"')'')
      else if dialect qg = ''sqlite'' then
        Inr (''json_extract('' @ quoted @ '', '' @
             SqlString_escape qg (JStr ''$.a[0].b'') (timezone qg) (dialect qg) @ '')'')
      else if dialect qg = ''postgres'' then
        Inr (''('' @ quoted @ ''#>>'' @
             SqlString_escape qg (JStr ''{a,0,b}'') (timezone qg) (dialect qg) @ '')'')
      else Inl (UnsupportedDialect (dialect qg)))\<close>
    by (simp add: jsonPathExtractionQuery_def quotedColumn_def Let_def
          str_split_example bracket_digits_example addTicks_def
          escape_def field_type_of_def generic_escape_def
          del: bracket_digits.simps)
next
  show "\<not> isIdentifierQuoted qg ''data''" by (rule data_not_quoted)
next
  show "quoteIdentifier qg ''data'' =
     (if quoteIdentifiersOption qg
      then [identifierQuoteChar qg] @ ''data'' @ [identifierQuoteChar qg] else ''data'')"
    using data_not_quoted [of qg]
    by (simp add: quoteIdentifier_def quoteIdentifier_force_def
          QuoteHelper_quoteIdentifier_def isIdentifierQuoted_def)
qed

theorem jsonPathExtractionQuery_a_0_b_witness:
  \<open>jsonPathExtractionQuery (unquoted mysql_generator) ''data'' (PathString ''a.0.b'') =
     Inr ''(data->>'$."a"."0"."b"')'' \<and>
   jsonPathExtractionQuery (unquoted sqlite_generator) ''data'' (PathString ''a.0.b'') =
     Inr ''json_extract(data, '$.a[0].b')'' \<and>
   jsonPathExtractionQuery (unquoted postgres_generator) ''data'' (PathString ''a.0.b'') =
     Inr ''(data#>>'{a,0,b}')'' \<and>
   jsonPathExtractionQuery postgres_generator ''data'' (PathString ''a.0.b'') =
     Inr ''("data"#>>'{a,0,b}')'' \<and>
   jsonPathExtractionQuery postgres_generator ''"t"."data"'' (PathString ''a.0.b'') =
     Inr ''("t"."data"#>>'{a,0,b}')''\<close>
  using jsonPathExtractionQuery_a_0_b [of "unquoted mysql_generator" "''data''"]
        jsonPathExtractionQuery_a_0_b [of "unquoted sqlite_generator" "''data''"]
        jsonPathExtractionQuery_a_0_b [of "unquoted postgres_generator" "''data''"]
        jsonPathExtractionQuery_a_0_b [of postgres_generator "''data''"]
        jsonPathExtractionQuery_a_0_b [of postgres_generator \<open>''"t"."data"''\<close>]
  by (simp add: unquoted_def mysql_generator_def sqlite_generator_def postgres_generator_def
        isIdentifierQuoted_def QuoteHelper_isIdentifierQuoted_def)

subsection \<open>Direction tokens\<close>

lemma indexOf_Some_nth: "indexOf xs x = Some k \<Longrightarrow> k < length xs \<and> xs ! k = x"
  by (induction xs arbitrary: k) (auto split: if_splits)

lemma indexOf_member: "x \<in> set xs \<Longrightarrow> \<exists>k. indexOf xs x = Some k"
  by (induction xs) auto

lemma indexOf_None: "x \<notin> set xs \<Longrightarrow> indexOf xs x = None"
  by (induction xs) auto

lemma toUpperCase_char_dot: "toUpperCase_char c = CHR ''.'' \<longleftrightarrow> c = CHR ''.''"
proof
  assume h: "toUpperCase_char c = CHR ''.''"
  show "c = CHR ''.''"
  proof (cases "97 \<le> (of_char c :: nat) \<and> (of_char c :: nat) \<le> 122")
    case True
    then have "(of_char c :: nat) - 32 < 256" by linarith
    with True have "of_char (toUpperCase_char c) = (of_char c :: nat) - 32"
      by (simp add: toUpperCase_char_def)
    then have "(of_char c :: nat) - 32 = 46" using h by simp
    then show ?thesis using True by linarith
  next
    case False
    then have "toUpperCase_char c = c" unfolding toUpperCase_char_def by (rule if_not_P)
    then show ?thesis using h by simp
  qed
next
  assume "c = CHR ''.''"
  then show "toUpperCase_char c = CHR ''.''" by (simp add: toUpperCase_char_def)
qed

lemma dot_toUpperCase_char: "CHR ''.'' = toUpperCase_char c \<longleftrightarrow> c = CHR ''.''"
  using toUpperCase_char_dot [of c] by auto

lemma dot_in_toUpperCase: "CHR ''.'' \<in> set (toUpperCase s) \<longleftrightarrow> CHR ''.'' \<in> set s"
  unfolding toUpperCase_def by (induction s) (auto simp: dot_toUpperCase_char)

lemma dotted_is_no_direction:
  "CHR ''.'' \<in> set item \<Longrightarrow> indexOf validOrderOptions (toUpperCase item) = None"
proof (rule indexOf_None, rule notI)
  assume d: "CHR ''.'' \<in> set item" and m: "toUpperCase item \<in> set validOrderOptions"
  from d have "CHR ''.'' \<in> set (toUpperCase item)" by (simp add: dot_in_toUpperCase)
  with m show False by (auto simp: validOrderOptions_def)
qed

lemma direction_token_becomes_literal:
  assumes "index > 0" and "toUpperCase s \<in> set validOrderOptions"
  shows "rewrite_item qg parent index previous (TString s) =
           Inr (TMethod (Literal ('' '' @ toUpperCase s)))"
proof -
  obtain k where k: "indexOf validOrderOptions (toUpperCase s) = Some k"
    using indexOf_member [OF assms(2)] by blast
  then have "validOrderOptions ! k = toUpperCase s"
    by (simp add: indexOf_Some_nth)
  then have "rewrite_string qg index pm s = Inr (TMethod (Literal ('' '' @ toUpperCase s)))" for pm
    using assms(1) k by (simp add: rewrite_string_def)
  then show ?thesis
    by (simp add: rewrite_item_def split: prod.splits option.splits)
qed


lemma title_is_no_direction: "indexOf validOrderOptions (toUpperCase ''title'') = None"
  by code_simp

lemma DESC_is_direction:
  "toUpperCase ''DESC'' = ''DESC''" "toUpperCase ''desc'' = ''DESC''"
  "''DESC'' \<in> set validOrderOptions"
  by code_simp+

lemma rewrite_item_plain_string:
  "previous_context parent previous = (None, pa) \<Longrightarrow>
   indexOf validOrderOptions (toUpperCase s) = None \<Longrightarrow>
   rewrite_item qg parent index previous (TString s) = Inr (TString s)"
  by (simp add: rewrite_item_def rewrite_string_def)

lemma quote_title_direction:
  assumes d: "toUpperCase s = ''DESC''"
  shows "quote qg (TArray [TString ''title'', TString s]) None connector =
         Inr (quoteIdentifier qg ''title'' @ '' DESC'')"
proof -
  have first: "rewrite_item qg None 0 None (TString ''title'') = Inr (TString ''title'')"
    by (rule rewrite_item_plain_string [where pa = None])
       (simp_all add: previous_context_def title_is_no_direction)
  have second: "rewrite_item qg None (Suc 0) (Some (TString ''title'')) (TString s) =
                  Inr (TMethod (Literal '' DESC''))"
    using direction_token_becomes_literal [of "Suc 0" s qg None "Some (TString ''title'')"] d
    by (simp add: DESC_is_direction)
  have rw: "rewrite_collection qg None [TString ''title'', TString s] =
              Inr [TString ''title'', TMethod (Literal '' DESC'')]"
    by (simp add: rewrite_collection_def first second)
  show ?thesis
    by (simp add: rw path_prefix_def quoteIdentifiers_no_dot)
qed

lemma quoteIdentifier_double_quote:
  "identifierQuoteChar qg = CHR 0x22 \<Longrightarrow> quoteIdentifiersOption qg \<Longrightarrow>
   \<not> isIdentifierQuoted qg s \<Longrightarrow> quoteIdentifier qg s = [CHR 0x22] @ s @ [CHR 0x22]"
  by (simp add: quoteIdentifier_def quoteIdentifier_force_def QuoteHelper_quoteIdentifier_def
        isIdentifierQuoted_def)

lemma title_not_quoted: "\<not> isIdentifierQuoted qg ''title''"
  by (cases "identifierQuoteChar qg = CHR ''t''")
     (auto simp: isIdentifierQuoted_def QuoteHelper_isIdentifierQuoted_def)

lemma posts_not_quoted: "\<not> isIdentifierQuoted qg ''posts''"
  by (cases "identifierQuoteChar qg = CHR ''p''")
     (auto simp: isIdentifierQuoted_def QuoteHelper_isIdentifierQuoted_def)

text \<open>
  Claim C7: a string element at an index greater than 0 that matches, without regard to
  case, one of the eight direction and null-ordering tokens is rewritten to a literal
  that carries the token as listed (after a space, which separates it from the column).
  So \<open>["title", "DESC"]\<close> gives \<open>"title" DESC\<close>, and \<open>["title", "desc"]\<close> gives the
  same text; the dialect of the example quotes with the double quote.
\<close>

theorem direction_token_passthrough:
  assumes "index > 0" and "toUpperCase s \<in> set validOrderOptions"
  shows \<open>rewrite_item qg parent index previous (TString s) =
           Inr (TMethod (Literal ('' '' @ toUpperCase s))) \<and>
         (identifierQuoteChar qg = CHR 0x22 \<and> quoteIdentifiersOption qg \<longrightarrow>
            quote qg (TArray [TString ''title'', TString ''DESC'']) None connector =
              Inr ''"title" DESC'' \<and>
            quote qg (TArray [TString ''title'', TString ''desc'']) None connector =
              Inr ''"title" DESC'')\<close>
proof
  show "rewrite_item qg parent index previous (TString s) =
           Inr (TMethod (Literal ('' '' @ toUpperCase s)))"
    using assms by (rule direction_token_becomes_literal)
next
  show \<open>identifierQuoteChar qg = CHR 0x22 \<and> quoteIdentifiersOption qg \<longrightarrow>
            quote qg (TArray [TString ''title'', TString ''DESC'']) None connector =
              Inr ''"title" DESC'' \<and>
            quote qg (TArray [TString ''title'', TString ''desc'']) None connector =
              Inr ''"title" DESC''\<close>
    by (simp add: quote_title_direction DESC_is_direction quoteIdentifier_double_quote
          title_not_quoted del: quote.simps)
qed

theorem direction_token_passthrough_witness:
  \<open>(1::nat) > 0 \<and> toUpperCase ''nulls first'' \<in> set validOrderOptions \<and>
   rewrite_item mysql_generator (Some User) 1 (Some (TString ''name'')) (TString ''nulls first'') =
     Inr (TMethod (Literal '' NULLS FIRST'')) \<and>
   identifierQuoteChar postgres_generator = CHR 0x22 \<and>
   quoteIdentifiersOption postgres_generator \<and>
   quote postgres_generator (TArray [TString ''title'', TString ''DESC'']) None [] =
     Inr ''"title" DESC'' \<and>
   quote postgres_generator (TArray [TString ''title'', TString ''desc'']) None [] =
     Inr ''"title" DESC''\<close>
proof -
  have pos: "(1::nat) > 0" by simp
  have up: "toUpperCase ''nulls first'' = ''NULLS FIRST''" by code_simp
  have tok: "toUpperCase ''nulls first'' \<in> set validOrderOptions" by code_simp
  have pg: "identifierQuoteChar postgres_generator = CHR 0x22 \<and>
            quoteIdentifiersOption postgres_generator"
    by (simp add: postgres_generator_def)
  show ?thesis
    using pos tok pg
      direction_token_passthrough [OF pos tok, of mysql_generator "Some User"
        "Some (TString ''name'')" "[]"]
      direction_token_passthrough [OF pos tok, of postgres_generator None None "[]"]
    by (simp add: up del: quote.simps)
qed

subsection \<open>Dotted strings\<close>

lemma dotted_is_not_inherited:
  "CHR ''.'' \<in> set item \<Longrightarrow> item \<notin> set Object_prototype_names"
  by (auto simp: Object_prototype_names_def)

lemma property_dotted_not_Inherited:
  "CHR ''.'' \<in> set item \<Longrightarrow> property obj item \<noteq> Inherited"
  by (auto simp: property_def dotted_is_not_inherited split: option.splits)

lemma rewrite_string_dotted:
  assumes dot: "CHR ''.'' \<in> set item"
      and attrs: "rawAttributes pm \<noteq> None"
      and no_assoc: "property (associations pm) item = Missing"
      and not_renamed: "\<forall>attr. property (rawAttributes pm) item = Own attr \<longrightarrow>
                          attr_field attr = item"
  shows "rewrite_string qg index (Some pm) item =
           (case property (rawAttributes pm) (hd (str_split CHR ''.'' item)) of
              Missing \<Rightarrow> Inl PropertyOfUndefined
            | Inherited \<Rightarrow> Inr (TString item)
            | Own attr \<Rightarrow>
                (if attr_type_is_JSON attr then
                   (case jsonPathExtractionQuery qg
                           (quoteIdentifiers qg (model_name pm @ ''.'' @ attr_field attr))
                           (PathArray (tl (str_split CHR ''.'' item))) of
                      Inl e \<Rightarrow> Inl e
                    | Inr sql \<Rightarrow> Inr (TMethod (Literal sql)))
                 else Inr (TString item)))"
  using assms property_dotted_not_Inherited [OF dot, of "rawAttributes pm"]
  by (auto simp: rewrite_string_def dotted_is_no_direction Let_def
           split: option.splits member.splits)

lemma rewrite_item_string:
  "previous_context parent previous = (pm, pa) \<Longrightarrow>
   rewrite_item qg parent index previous (TString s) = rewrite_string qg index pm s"
  by (simp add: rewrite_item_def split: option.splits)

text \<open>
  Claim C10, as stated: with a current model whose attribute map is defined, a string
  element with a dot whose first segment is not a declared attribute of the model makes
  the normalisation fail, and the element is rewritten without an error only when the
  first segment names an existing attribute. It does not fail where the first segment,
  though no declared attribute, is a member that the attribute map inherits
  (\<open>toString\<close>): the string is then quoted as an identifier. Nor does it fail where
  the whole string is taken by an earlier branch: as an attribute stored in another
  column (\<open>a.b\<close> of Event) or as the name of an association (\<open>x.y\<close> of Event).
\<close>

theorem dotted_string_inherited_prefix_counterexample:
  \<open>property (rawAttributes User) ''toString'' = Inherited \<and>
   quote postgres_generator (TArray [TString ''toString.a'']) (Some User) [] =
     Inr ''"User"."toString"."a"'' \<and>
   property (rawAttributes Event) ''a'' = Missing \<and>
   quote postgres_generator (TArray [TString ''a.b'']) (Some Event) [] =
     Inr ''"Event"."ab"'' \<and>
   property (rawAttributes Event) ''x'' = Missing \<and>
   quote postgres_generator (TArray [TString ''x.y'', TString ''title'']) (Some Event) [] =
     Inr ''"x.y"."title"''\<close>
  by code_simp

text \<open>
  Claim C10, amended: with a current model whose attribute map is defined, take a string
  element with a dot that no earlier branch takes: it is not a property of the model's
  association map and not an attribute stored in a column of another name. If its first
  segment is no property of the attribute map at all, neither a declared attribute nor an
  inherited member, the normalisation fails: the attribute is read without a check that
  it exists. If the first segment is an inherited member, the string stays as it is, for
  plain identifier quoting. The element is rewritten without an error only when the first
  segment is a property of the attribute map.
\<close>

theorem dotted_string_unknown_prefix_fails:
  assumes dot: "CHR ''.'' \<in> set item"
      and attrs: "rawAttributes pm \<noteq> None"
      and no_assoc: "property (associations pm) item = Missing"
      and not_renamed: "\<forall>attr. property (rawAttributes pm) item = Own attr \<longrightarrow>
                          attr_field attr = item"
  shows "(property (rawAttributes pm) (hd (str_split CHR ''.'' item)) = Missing \<longrightarrow>
            (\<forall>parent previous pa index.
               previous_context parent previous = (Some pm, pa) \<longrightarrow>
               rewrite_item qg parent index previous (TString item) = Inl PropertyOfUndefined) \<and>
            quote qg (TArray (TString item # rest)) (Some pm) connector =
              Inl PropertyOfUndefined) \<and>
         (property (rawAttributes pm) (hd (str_split CHR ''.'' item)) = Inherited \<longrightarrow>
            (\<forall>parent previous pa index.
               previous_context parent previous = (Some pm, pa) \<longrightarrow>
               rewrite_item qg parent index previous (TString item) = Inr (TString item))) \<and>
         (\<forall>parent previous pa index t.
            previous_context parent previous = (Some pm, pa) \<and>
            rewrite_item qg parent index previous (TString item) = Inr t \<longrightarrow>
            property (rawAttributes pm) (hd (str_split CHR ''.'' item)) \<noteq> Missing)"
proof -
  note rs = rewrite_string_dotted [OF assms]
  have first: "previous_context (Some pm) None = (Some pm, None)"
    by (simp add: previous_context_def)
  show ?thesis
  proof (intro conjI impI allI)
    fix parent previous pa index
    assume "property (rawAttributes pm) (hd (str_split CHR ''.'' item)) = Missing"
       and "previous_context parent previous = (Some pm, pa)"
    then show "rewrite_item qg parent index previous (TString item) = Inl PropertyOfUndefined"
      by (simp add: rewrite_item_string rs)
  next
    assume "property (rawAttributes pm) (hd (str_split CHR ''.'' item)) = Missing"
    then have "rewrite_item qg (Some pm) 0 None (TString item) = Inl PropertyOfUndefined"
      using first by (simp add: rewrite_item_string rs)
    then show "quote qg (TArray (TString item # rest)) (Some pm) connector =
                 Inl PropertyOfUndefined"
      by (simp add: rewrite_collection_def)
  next
    fix parent previous pa index
    assume "property (rawAttributes pm) (hd (str_split CHR ''.'' item)) = Inherited"
       and "previous_context parent previous = (Some pm, pa)"
    then show "rewrite_item qg parent index previous (TString item) = Inr (TString item)"
      by (simp add: rewrite_item_string rs)
  next
    fix parent previous pa index t
    assume "previous_context parent previous = (Some pm, pa) \<and>
            rewrite_item qg parent index previous (TString item) = Inr t"
    then have "rewrite_string qg index (Some pm) item = Inr t"
      by (metis rewrite_item_string)
    then show "property (rawAttributes pm) (hd (str_split CHR ''.'' item)) \<noteq> Missing"
      unfolding rs by (auto split: member.splits)
  qed
qed

theorem dotted_string_unknown_prefix_fails_witness:
  \<open>CHR ''.'' \<in> set ''foo.a'' \<and>
   rawAttributes User \<noteq> None \<and>
   property (associations User) ''foo.a'' = Missing \<and>
   property (rawAttributes User) ''foo.a'' = Missing \<and>
   property (rawAttributes User) (hd (str_split CHR ''.'' ''foo.a'')) = Missing \<and>
   quote mysql_generator (TArray [TString ''foo.a'']) (Some User) [] = Inl PropertyOfUndefined \<and>
   previous_context (Some User) None = (Some User, None) \<and>
   property (rawAttributes User) (hd (str_split CHR ''.'' ''toString.a'')) = Inherited \<and>
   rewrite_item mysql_generator (Some User) 0 None (TString ''toString.a'') =
     Inr (TString ''toString.a'') \<and>
   rewrite_item mysql_generator (Some User) 0 None (TString ''data.a'') =
     Inr (TMethod (Literal ''(`User`.`data`->>'$."a"')'')) \<and>
   property (rawAttributes User) (hd (str_split CHR ''.'' ''data.a'')) \<noteq> Missing\<close>
proof -
  have attrs: "rawAttributes User \<noteq> None" by (simp add: User_def)
  have dot: "CHR ''.'' \<in> set ''foo.a''" "CHR ''.'' \<in> set ''toString.a''"
            "CHR ''.'' \<in> set ''data.a''"
    by simp_all
  have na: "property (associations User) ''foo.a'' = Missing"
           "property (associations User) ''toString.a'' = Missing"
           "property (associations User) ''data.a'' = Missing"
    by code_simp+
  have ma: "property (rawAttributes User) ''foo.a'' = Missing"
           "property (rawAttributes User) ''toString.a'' = Missing"
           "property (rawAttributes User) ''data.a'' = Missing"
    by code_simp+
  have nr: "\<forall>attr. property (rawAttributes User) ''foo.a'' = Own attr \<longrightarrow>
                     attr_field attr = ''foo.a''"
           "\<forall>attr. property (rawAttributes User) ''toString.a'' = Own attr \<longrightarrow>
                     attr_field attr = ''toString.a''"
           "\<forall>attr. property (rawAttributes User) ''data.a'' = Own attr \<longrightarrow>
                     attr_field attr = ''data.a''"
    by (simp_all add: ma)
  have undeclared: "property (rawAttributes User) (hd (str_split CHR ''.'' ''foo.a'')) = Missing"
    by code_simp
  have inherited:
    "property (rawAttributes User) (hd (str_split CHR ''.'' ''toString.a'')) = Inherited"
    by code_simp
  have ctx: "previous_context (Some User) None = (Some User, None)"
    by (simp add: previous_context_def)
  have ok: \<open>rewrite_item mysql_generator (Some User) 0 None (TString ''data.a'') =
              Inr (TMethod (Literal ''(`User`.`data`->>'$."a"')''))\<close>
    by code_simp
  note t1 = dotted_string_unknown_prefix_fails
              [OF dot(1) attrs na(1) nr(1), of mysql_generator "[]" "[]"]
  note t2 = dotted_string_unknown_prefix_fails
              [OF dot(2) attrs na(2) nr(2), of mysql_generator "[]" "[]"]
  note t3 = dotted_string_unknown_prefix_fails
              [OF dot(3) attrs na(3) nr(3), of mysql_generator "[]" "[]"]
  have fails: "quote mysql_generator (TArray [TString ''foo.a'']) (Some User) [] =
                 Inl PropertyOfUndefined"
    using t1 undeclared by blast
  have stays: "rewrite_item mysql_generator (Some User) 0 None (TString ''toString.a'') =
                 Inr (TString ''toString.a'')"
    using t2 inherited ctx by blast
  have declared: "property (rawAttributes User) (hd (str_split CHR ''.'' ''data.a'')) \<noteq> Missing"
    using t3 ctx ok by blast
  show ?thesis
    using dot(1) attrs na(1) ma(1) undeclared fails ctx inherited stays ok declared
    by (simp del: quote.simps)
qed


subsection \<open>The prefix of a path\<close>

lemma scan_edges:
  "length tableNames = i \<Longrightarrow>
   scan_tableNames (map TAssociation edges @ rest) i tableNames =
   scan_tableNames rest (i + length edges) (tableNames @ map (\<lambda>a. Some (assoc_as a)) edges)"
  by (induction edges arbitrary: i tableNames) (simp_all add: array_set_def)

lemma scan_boundary:
  "is_boundary b \<Longrightarrow> scan_tableNames (b # rest) i tableNames = Inr (i, tableNames)"
  by (cases b) simp_all

lemma scan_path:
  assumes "is_boundary b"
  shows "scan_tableNames (butlast (map TAssociation edges @ b # rest)) 0 [] =
           Inr (length edges, map (\<lambda>a. Some (assoc_as a)) edges)"
proof (cases "rest = []")
  case True
  then show ?thesis using scan_edges [of "[]" 0 edges "[]"] by (simp add: butlast_append)
next
  case False
  then have "butlast (map TAssociation edges @ b # rest) =
             map TAssociation edges @ b # butlast rest"
    by (simp add: butlast_append)
  moreover have "scan_tableNames (map TAssociation edges @ b # butlast rest) 0 [] =
                 scan_tableNames (b # butlast rest) (length edges)
                   (map (\<lambda>a. Some (assoc_as a)) edges)"
    using scan_edges [of "[]" 0 edges "b # butlast rest"]
    by (simp del: scan_tableNames.simps)
  ultimately show ?thesis
    using assms by (simp add: scan_boundary del: scan_tableNames.simps)
qed

lemma join_tableNames_edges:
  "join_tableNames c (map (\<lambda>a. Some (assoc_as a)) edges) = str_join c (map assoc_as edges)"
  by (simp add: join_tableNames_def comp_def)

lemma quote_edges_then_boundary:
  assumes rw: "rewrite_collection qg parent collection =
                 Inr (map TAssociation edges @ boundary # rest)"
      and b: "is_boundary boundary"
  shows "quote qg (TArray collection) parent connector =
           append_all
             (if edges \<noteq> [] then
                quoteIdentifier qg
                  (str_join (default_connector connector) (map assoc_as edges)) @ ''.''
              else if is_string boundary \<and> parent \<noteq> None then
                quoteIdentifier qg (model_name (the parent)) @ ''.''
              else [])
             (map (\<lambda>item. quote qg item parent (default_connector connector))
                  (boundary # rest))"
proof -
  have scan: "scan_tableNames
                (take (length (map TAssociation edges @ boundary # rest) - 1)
                      (map TAssociation edges @ boundary # rest)) 0 [] =
              Inr (length edges, map (\<lambda>a. Some (assoc_as a)) edges)"
    using scan_path [OF b, of edges rest] by (simp add: butlast_conv_take)
  have prefix:
    "path_prefix qg parent (default_connector connector)
       (map TAssociation edges @ boundary # rest) (length edges)
       (map (\<lambda>a. Some (assoc_as a)) edges) =
     (if edges \<noteq> [] then
        quoteIdentifier qg (str_join (default_connector connector) (map assoc_as edges)) @ ''.''
      else if is_string boundary \<and> parent \<noteq> None then
        quoteIdentifier qg (model_name (the parent)) @ ''.''
      else [])"
    by (cases boundary; cases parent)
       (auto simp: path_prefix_def join_tableNames_edges)
  show ?thesis
    unfolding quote.simps rw sum.case scan prod.case prefix
    by simp
qed

lemma append_all_Inr: "append_all sql (map Inr parts) = Inr (sql @ concat parts)"
  by (induction parts arbitrary: sql) simp_all

text \<open>
  Claim C5: after the rewriting pass the prefix is built from the association edges that
  stand before the first string, literal or attribute reference: their aliases are joined
  by the connector, quoted as one identifier and followed by a dot. Without such edges,
  when the first element is a bare string and a parent model is present, the prefix is
  the quoted name of the parent model and a dot. Every element from the boundary on is
  normalised in turn and the texts are concatenated with nothing between them.
\<close>

theorem path_prefix_then_rest:
  assumes rw: "rewrite_collection qg parent collection =
                 Inr (map TAssociation edges @ boundary # rest)"
      and b: "is_boundary boundary"
  shows "quote qg (TArray collection) parent connector =
           append_all (prefix_by_spec qg parent (default_connector connector) edges boundary)
             (map (\<lambda>item. quote qg item parent (default_connector connector))
                  (boundary # rest)) \<and>
         (map (\<lambda>item. quote qg item parent (default_connector connector)) (boundary # rest) =
            map Inr parts \<longrightarrow>
          quote qg (TArray collection) parent connector =
            Inr (prefix_by_spec qg parent (default_connector connector) edges boundary @
                 concat parts))"
proof -
  have q: "quote qg (TArray collection) parent connector =
           append_all (prefix_by_spec qg parent (default_connector connector) edges boundary)
             (map (\<lambda>item. quote qg item parent (default_connector connector))
                  (boundary # rest))"
    unfolding prefix_by_spec_def by (rule quote_edges_then_boundary [OF rw b])
  show ?thesis
  proof (intro conjI impI)
    show "quote qg (TArray collection) parent connector =
           append_all (prefix_by_spec qg parent (default_connector connector) edges boundary)
             (map (\<lambda>item. quote qg item parent (default_connector connector))
                  (boundary # rest))"
      by (rule q)
  next
    assume "map (\<lambda>item. quote qg item parent (default_connector connector)) (boundary # rest) =
            map Inr parts"
    then show "quote qg (TArray collection) parent connector =
            Inr (prefix_by_spec qg parent (default_connector connector) edges boundary @
                 concat parts)"
      unfolding q by (simp only: append_all_Inr)
  qed
qed

theorem path_prefix_then_rest_witness:
  \<open>rewrite_collection postgres_generator (Some User)
      [TString ''posts'', TString ''title'', TString ''desc''] =
     Inr (map TAssociation [Association Post ''posts'' None] @
          TString ''title'' # [TMethod (Literal '' DESC'')]) \<and>
   is_boundary (TString ''title'') \<and>
   quote postgres_generator (TArray [TString ''posts'', TString ''title'', TString ''desc''])
     (Some User) [] = Inr ''"posts"."title" DESC'' \<and>
   rewrite_collection postgres_generator (Some User) [TString ''name''] =
     Inr (map TAssociation [] @ TString ''name'' # []) \<and>
   quote postgres_generator (TArray [TString ''name'']) (Some User) [] = Inr ''"User"."name"''\<close>
proof -
  have rw1: "rewrite_collection postgres_generator (Some User)
      [TString ''posts'', TString ''title'', TString ''desc''] =
     Inr (map TAssociation [Association Post ''posts'' None] @
          TString ''title'' # [TMethod (Literal '' DESC'')])"
    by code_simp
  have rw2: "rewrite_collection postgres_generator (Some User) [TString ''name''] =
     Inr (map TAssociation [] @ TString ''name'' # [])"
    by code_simp
  have b: "is_boundary (TString ''title'')" "is_boundary (TString ''name'')" by simp_all
  have parts1: \<open>map (\<lambda>item. quote postgres_generator item (Some User) (default_connector []))
                  (TString ''title'' # [TMethod (Literal '' DESC'')]) =
                map Inr [''"title"'', '' DESC'']\<close>
    by code_simp
  have parts2: \<open>map (\<lambda>item. quote postgres_generator item (Some User) (default_connector []))
                  (TString ''name'' # []) = map Inr [''"name"'']\<close>
    by code_simp
  have p1: \<open>prefix_by_spec postgres_generator (Some User) (default_connector [])
              [Association Post ''posts'' None] (TString ''title'') = ''"posts".''\<close>
    by code_simp
  have p2: \<open>prefix_by_spec postgres_generator (Some User) (default_connector [])
              [] (TString ''name'') = ''"User".''\<close>
    by code_simp
  show ?thesis
    using rw1 rw2 b
      path_prefix_then_rest [OF rw1 b(1), of "[]" \<open>[''"title"'', '' DESC'']\<close>]
      path_prefix_then_rest [OF rw2 b(2), of "[]" \<open>[''"name"'']\<close>]
    unfolding parts1 parts2 p1 p2
    by (simp del: quote.simps)
qed

subsection \<open>A path through an association\<close>

lemma title_is_not_inherited: "property obj ''title'' \<noteq> Inherited"
  by (simp add: property_def Object_prototype_names_def split: option.splits)

text \<open>
  Claim C1: for a model \<open>A\<close> with an association declared under the name \<open>posts\<close>,
  whose target is the model \<open>B\<close> and whose alias is \<open>posts\<close>, the path
  \<open>["posts", "title"]\<close> with parent \<open>A\<close> gives the alias quoted as one identifier, a
  dot and the quoted column: \<open>"posts"."title"\<close> in a dialect that quotes with the double
  quote. In the example \<open>title\<close> is a plain column of \<open>B\<close>: not the name of an
  association of \<open>B\<close> and not an attribute stored under another column name.
\<close>

theorem quote_posts_title:
  assumes posts: "property (associations A) ''posts'' = Own (Association B ''posts'' through)"
      and no_assoc: "property (associations B) ''title'' = Missing"
      and column: "\<forall>attr. property (rawAttributes B) ''title'' = Own attr \<longrightarrow>
                     attr_field attr = ''title''"
  shows \<open>quote qg (TArray [TString ''posts'', TString ''title'']) (Some A) connector =
           Inr (quoteIdentifier qg ''posts'' @ ''.'' @ quoteIdentifier qg ''title'') \<and>
         (identifierQuoteChar qg = CHR 0x22 \<and> quoteIdentifiersOption qg \<longrightarrow>
            quote qg (TArray [TString ''posts'', TString ''title'']) (Some A) connector =
              Inr ''"posts"."title"'')\<close>
proof -
  let ?edge = "Association B ''posts'' through"
  have first: "rewrite_item qg (Some A) 0 None (TString ''posts'') = Inr (TAssociation ?edge)"
    using posts
    by (simp add: rewrite_item_def previous_context_def rewrite_string_def)
  have ctx: "previous_context (Some A) (Some (TAssociation ?edge)) = (Some B, Some ?edge)"
    by (simp add: previous_context_def)
  have second: "rewrite_item qg (Some A) (Suc 0) (Some (TAssociation ?edge)) (TString ''title'') =
                  Inr (TString ''title'')"
    using no_assoc column title_is_not_inherited [of "rawAttributes B"]
    by (cases "property (rawAttributes B) ''title''")
       (auto simp: rewrite_item_string [OF ctx] rewrite_string_def title_is_no_direction
             Let_def)
  have rw: "rewrite_collection qg (Some A) [TString ''posts'', TString ''title''] =
              Inr (map TAssociation [?edge] @ TString ''title'' # [])"
    by (simp add: rewrite_collection_def first second)
  have q: "quote qg (TArray [TString ''posts'', TString ''title'']) (Some A) connector =
           Inr (quoteIdentifier qg ''posts'' @ ''.'' @ quoteIdentifier qg ''title'')"
    using quote_edges_then_boundary [OF rw, of connector]
    by (simp add: quoteIdentifiers_no_dot del: quote.simps(2))
  show ?thesis
    by (simp add: q quoteIdentifier_double_quote title_not_quoted posts_not_quoted
          del: quote.simps)
qed

theorem quote_posts_title_witness:
  \<open>property (associations User) ''posts'' = Own (Association Post ''posts'' None) \<and>
   property (associations Post) ''title'' = Missing \<and>
   property (rawAttributes Post) ''title'' =
     Own \<lparr>attr_field = ''title'', attr_type_is_JSON = False\<rparr> \<and>
   identifierQuoteChar postgres_generator = CHR 0x22 \<and>
   quoteIdentifiersOption postgres_generator \<and>
   quote postgres_generator (TArray [TString ''posts'', TString ''title'']) (Some User) [] =
     Inr ''"posts"."title"''\<close>
proof -
  have posts: "property (associations User) ''posts'' = Own (Association Post ''posts'' None)"
    by (simp add: User_def property_def)
  have no_assoc: "property (associations Post) ''title'' = Missing"
    by (simp add: Post_def property_def Object_prototype_names_def)
  have own: "property (rawAttributes Post) ''title'' =
               Own \<lparr>attr_field = ''title'', attr_type_is_JSON = False\<rparr>"
    by (simp add: Post_def property_def)
  have column: "\<forall>attr. property (rawAttributes Post) ''title'' = Own attr \<longrightarrow>
                  attr_field attr = ''title''"
    by (auto simp: own)
  have pg: "identifierQuoteChar postgres_generator = CHR 0x22 \<and>
            quoteIdentifiersOption postgres_generator"
    by (simp add: postgres_generator_def)
  have \<open>quote postgres_generator (TArray [TString ''posts'', TString ''title''])
          (Some User) [] = Inr ''"posts"."title"''\<close>
    by (rule quote_posts_title [OF posts no_assoc column, of postgres_generator "[]",
          THEN conjunct2, THEN mp, OF pg])
  then show ?thesis
    using posts no_assoc own pg by (simp del: quote.simps)
qed

end
